theory Spec2Isabelle
  imports Complex_Main
begin

section \<open>JavaScript numbers\<close>

text \<open>
  A JavaScript number is modelled as an extended real: the three special values of
  IEEE 754 (\<open>NaN\<close>, \<open>+Infinity\<close>, \<open>-Infinity\<close>) and the finite values, carried by an
  exact real. The special values follow the IEEE rules the source relies on (a
  comparison with \<open>NaN\<close> is false, \<open>0 / 0\<close> is \<open>NaN\<close>, \<open>NaN\<close> is absorbing). Finite
  arithmetic is exact: rounding to 53 bits, overflow and the sign of zero are not
  modelled, and a zero divisor counts as \<open>+0\<close>.
\<close>

datatype number = NaN | PosInf | NegInf | Fin real

text \<open>The sign of an infinite product or quotient, given the finite factor.\<close>

definition signedInf :: "bool \<Rightarrow> number" where
  "signedInf positive = (if positive then PosInf else NegInf)"

text \<open>
  The quotient \<open>x / y\<close>. A finite value over zero is infinite with the sign of the
  dividend, and \<open>0 / 0\<close> is \<open>NaN\<close>.
\<close>

fun num_divide :: "number \<Rightarrow> number \<Rightarrow> number" where
  "num_divide NaN y = NaN"
| "num_divide x NaN = NaN"
| "num_divide (Fin x) (Fin y) =
     (if y = 0 then (if x = 0 then NaN else signedInf (0 < x)) else Fin (x / y))"
| "num_divide (Fin x) PosInf = Fin 0"
| "num_divide (Fin x) NegInf = Fin 0"
| "num_divide PosInf (Fin y) = signedInf (0 \<le> y)"
| "num_divide NegInf (Fin y) = signedInf (y < 0)"
| "num_divide PosInf y = NaN"
| "num_divide NegInf y = NaN"

instantiation number :: "{zero, one, plus, minus, uminus, times, inverse, ord}"
begin

definition zero_number :: number where
  "zero_number = Fin 0"

definition one_number :: number where
  "one_number = Fin 1"

fun uminus_number :: "number \<Rightarrow> number" where
  "uminus_number NaN = NaN"
| "uminus_number PosInf = NegInf"
| "uminus_number NegInf = PosInf"
| "uminus_number (Fin x) = Fin (- x)"

fun plus_number :: "number \<Rightarrow> number \<Rightarrow> number" where
  "plus_number NaN y = NaN"
| "plus_number x NaN = NaN"
| "plus_number PosInf NegInf = NaN"
| "plus_number NegInf PosInf = NaN"
| "plus_number PosInf y = PosInf"
| "plus_number x PosInf = PosInf"
| "plus_number NegInf y = NegInf"
| "plus_number x NegInf = NegInf"
| "plus_number (Fin x) (Fin y) = Fin (x + y)"

definition minus_number :: "number \<Rightarrow> number \<Rightarrow> number" where
  "minus_number (x :: number) y = x + (- y)"

fun times_number :: "number \<Rightarrow> number \<Rightarrow> number" where
  "times_number NaN y = NaN"
| "times_number x NaN = NaN"
| "times_number (Fin x) (Fin y) = Fin (x * y)"
| "times_number (Fin x) PosInf = (if x = 0 then NaN else signedInf (0 < x))"
| "times_number (Fin x) NegInf = (if x = 0 then NaN else signedInf (x < 0))"
| "times_number PosInf (Fin y) = (if y = 0 then NaN else signedInf (0 < y))"
| "times_number NegInf (Fin y) = (if y = 0 then NaN else signedInf (y < 0))"
| "times_number PosInf PosInf = PosInf"
| "times_number PosInf NegInf = NegInf"
| "times_number NegInf PosInf = NegInf"
| "times_number NegInf NegInf = PosInf"

definition divide_number :: "number \<Rightarrow> number \<Rightarrow> number" where
  "divide_number = num_divide"

definition inverse_number :: "number \<Rightarrow> number" where
  "inverse_number = num_divide (Fin 1)"

fun less_number :: "number \<Rightarrow> number \<Rightarrow> bool" where
  "less_number NaN y = False"
| "less_number x NaN = False"
| "less_number (Fin x) (Fin y) = (x < y)"
| "less_number x NegInf = False"
| "less_number NegInf y = True"
| "less_number PosInf y = False"
| "less_number x PosInf = True"

fun less_eq_number :: "number \<Rightarrow> number \<Rightarrow> bool" where
  "less_eq_number NaN y = False"
| "less_eq_number x NaN = False"
| "less_eq_number (Fin x) (Fin y) = (x \<le> y)"
| "less_eq_number NegInf y = True"
| "less_eq_number x PosInf = True"
| "less_eq_number x NegInf = False"
| "less_eq_number PosInf y = False"

instance ..

end

instance number :: semigroup_add
proof
  fix a b c :: number
  show "a + b + c = a + (b + c)"
    by (cases a; cases b; cases c; simp)
qed

instance number :: numeral ..

instance number :: power ..

text \<open>The global functions \<open>isFinite\<close> and \<open>isNaN\<close>.\<close>

fun isFinite :: "number \<Rightarrow> bool" where
  "isFinite (Fin x) = True"
| "isFinite x = False"

fun isNaN :: "number \<Rightarrow> bool" where
  "isNaN NaN = True"
| "isNaN x = False"

text \<open>\<open>Math.round\<close> rounds to the nearest integer, a tie towards \<open>+Infinity\<close>.\<close>

fun Math_round :: "number \<Rightarrow> number" where
  "Math_round (Fin x) = Fin (of_int \<lfloor>x + 1 / 2\<rfloor>)"
| "Math_round x = x"

fun Math_floor :: "number \<Rightarrow> number" where
  "Math_floor (Fin x) = Fin (of_int \<lfloor>x\<rfloor>)"
| "Math_floor x = x"

text \<open>
  The remainder operator \<open>%\<close>: the result has the sign of the dividend (the quotient
  is truncated towards zero); an infinite dividend or a zero divisor gives \<open>NaN\<close>, an
  infinite divisor leaves a finite dividend unchanged.
\<close>

definition trunc :: "real \<Rightarrow> int" where
  "trunc x = (if 0 \<le> x then \<lfloor>x\<rfloor> else - \<lfloor>- x\<rfloor>)"

fun remainder :: "number \<Rightarrow> number \<Rightarrow> number" where
  "remainder (Fin x) (Fin y) = (if y = 0 then NaN else Fin (x - y * of_int (trunc (x / y))))"
| "remainder (Fin x) PosInf = Fin x"
| "remainder (Fin x) NegInf = Fin x"
| "remainder x y = NaN"

text \<open>
  \<open>Math.pow\<close> (also the operator \<open>**\<close>): a zero exponent gives 1 for every base, a
  negative base needs an integral exponent, and the infinite cases follow the language
  standard.
\<close>

fun Math_pow :: "number \<Rightarrow> number \<Rightarrow> number" where
  "Math_pow x NaN = NaN"
| "Math_pow x (Fin y) =
     (if y = 0 then Fin 1
      else case x of
          NaN \<Rightarrow> NaN
        | PosInf \<Rightarrow> (if 0 < y then PosInf else Fin 0)
        | NegInf \<Rightarrow> (if 0 < y then (if y = of_int \<lfloor>y\<rfloor> \<and> odd \<lfloor>y\<rfloor> then NegInf else PosInf)
                     else Fin 0)
        | Fin b \<Rightarrow>
            (if b = 0 then (if 0 < y then Fin 0 else PosInf)
             else if 0 < b then Fin (b powr y)
             else if y = of_int \<lfloor>y\<rfloor> then Fin (b powi \<lfloor>y\<rfloor>)
             else NaN))"
| "Math_pow x PosInf =
     (case x of
          NaN \<Rightarrow> NaN
        | Fin b \<Rightarrow> (if 1 < \<bar>b\<bar> then PosInf else if \<bar>b\<bar> = 1 then NaN else Fin 0)
        | _ \<Rightarrow> PosInf)"
| "Math_pow x NegInf =
     (case x of
          NaN \<Rightarrow> NaN
        | Fin b \<Rightarrow> (if 1 < \<bar>b\<bar> then Fin 0 else if \<bar>b\<bar> = 1 then NaN else PosInf)
        | _ \<Rightarrow> Fin 0)"

fun Math_sqrt :: "number \<Rightarrow> number" where
  "Math_sqrt (Fin x) = (if x < 0 then NaN else Fin (sqrt x))"
| "Math_sqrt PosInf = PosInf"
| "Math_sqrt x = NaN"

fun Math_cbrt :: "number \<Rightarrow> number" where
  "Math_cbrt (Fin x) = Fin (root 3 x)"
| "Math_cbrt x = x"

fun Math_cos :: "number \<Rightarrow> number" where
  "Math_cos (Fin x) = Fin (cos x)"
| "Math_cos x = NaN"

fun Math_sin :: "number \<Rightarrow> number" where
  "Math_sin (Fin x) = Fin (sin x)"
| "Math_sin x = NaN"

fun Math_exp :: "number \<Rightarrow> number" where
  "Math_exp (Fin x) = Fin (exp x)"
| "Math_exp PosInf = PosInf"
| "Math_exp NegInf = Fin 0"
| "Math_exp NaN = NaN"

fun Math_abs :: "number \<Rightarrow> number" where
  "Math_abs (Fin x) = Fin \<bar>x\<bar>"
| "Math_abs NaN = NaN"
| "Math_abs x = PosInf"

definition Math_PI :: number where
  "Math_PI = Fin pi"

text \<open>
  \<open>Math.atan2(y, x)\<close>: the angle of the point \<open>(x, y)\<close>, in \<open>(-\<pi>, \<pi>]\<close>; the angle
  of the origin is 0.
\<close>

definition atan2 :: "real \<Rightarrow> real \<Rightarrow> real" where
  "atan2 y x =
     (if 0 < x then arctan (y / x)
      else if x < 0 then (if 0 \<le> y then arctan (y / x) + pi else arctan (y / x) - pi)
      else if 0 < y then pi / 2
      else if y < 0 then - pi / 2
      else 0)"

fun Math_atan2 :: "number \<Rightarrow> number \<Rightarrow> number" where
  "Math_atan2 NaN x = NaN"
| "Math_atan2 y NaN = NaN"
| "Math_atan2 (Fin y) (Fin x) = Fin (atan2 y x)"
| "Math_atan2 (Fin y) PosInf = Fin 0"
| "Math_atan2 (Fin y) NegInf = Fin (if 0 \<le> y then pi else - pi)"
| "Math_atan2 PosInf (Fin x) = Fin (pi / 2)"
| "Math_atan2 NegInf (Fin x) = Fin (- pi / 2)"
| "Math_atan2 PosInf PosInf = Fin (pi / 4)"
| "Math_atan2 PosInf NegInf = Fin (3 * pi / 4)"
| "Math_atan2 NegInf PosInf = Fin (- pi / 4)"
| "Math_atan2 NegInf NegInf = Fin (- 3 * pi / 4)"

text \<open>\<open>Math.pow(10, digits)\<close> for an integral digit count.\<close>

definition pow10 :: "int \<Rightarrow> number" where
  "pow10 digits = Fin (10 powi digits)"

section \<open>Numeric primitives\<close>

definition ALPHA_PRECISION :: int where
  "ALPHA_PRECISION = 3"

text \<open>
  \<open>round(number, digits)\<close> and \<open>floor(number, digits)\<close> of the source, named
  \<open>round_num\<close> and \<open>floor_num\<close> here; the final \<open>+ 0\<close> turns \<open>-0\<close> into \<open>0\<close>.
\<close>

definition round_num :: "number \<Rightarrow> int \<Rightarrow> number" where
  "round_num n digits = (let base = pow10 digits in Math_round (base * n) / base + 0)"

definition floor_num :: "number \<Rightarrow> int \<Rightarrow> number" where
  "floor_num n digits = (let base = pow10 digits in Math_floor (base * n) / base + 0)"

definition clamp :: "number \<Rightarrow> number \<Rightarrow> number \<Rightarrow> number" where
  "clamp n lo hi = (if n > hi then hi else if n > lo then n else lo)"

definition clampHue :: "number \<Rightarrow> number" where
  "clampHue degrees =
     (let degrees = (if isFinite degrees then remainder degrees 360 else 0)
      in if degrees > 0 then degrees else degrees + 360)"

section \<open>Colour models\<close>

text \<open>
  Every colour object of the source is a record of numbers. A field \<open>x\<close> of the
  model \<open>m\<close> is named \<open>m_x\<close>, since the models share their field names.
\<close>

record rgba =
  rgba_r :: number
  rgba_g :: number
  rgba_b :: number
  rgba_a :: number

record cmyka =
  cmyka_c :: number
  cmyka_m :: number
  cmyka_y :: number
  cmyka_k :: number
  cmyka_a :: number

record hsva =
  hsva_h :: number
  hsva_s :: number
  hsva_v :: number
  hsva_a :: number

record hwba =
  hwba_h :: number
  hwba_w :: number
  hwba_b :: number
  hwba_a :: number

record xyz =
  xyz_x :: number
  xyz_y :: number
  xyz_z :: number

record xyza =
  xyza_x :: number
  xyza_y :: number
  xyza_z :: number
  xyza_a :: number

record laba =
  laba_l :: number
  laba_a :: number
  laba_b :: number
  laba_alpha :: number

record lcha =
  lcha_l :: number
  lcha_c :: number
  lcha_h :: number
  lcha_a :: number

text \<open>\<open>Math.max\<close> and \<open>Math.min\<close> of three arguments: \<open>NaN\<close> if any argument is.\<close>

definition Math_max :: "number \<Rightarrow> number \<Rightarrow> number \<Rightarrow> number" where
  "Math_max x y z =
     (if isNaN x \<or> isNaN y \<or> isNaN z then NaN
      else let m = (if x < y then y else x) in if m < z then z else m)"

definition Math_min :: "number \<Rightarrow> number \<Rightarrow> number \<Rightarrow> number" where
  "Math_min x y z =
     (if isNaN x \<or> isNaN y \<or> isNaN z then NaN
      else let m = (if y < x then y else x) in if z < m then z else m)"

text \<open>
  A number in a condition counts as false when it is 0 or \<open>NaN\<close>; \<open>===\<close> on numbers is
  equality, except that \<open>NaN\<close> equals nothing.
\<close>

definition truthy :: "number \<Rightarrow> bool" where
  "truthy x = (\<not> isNaN x \<and> x \<noteq> Fin 0)"

definition strictEq :: "number \<Rightarrow> number \<Rightarrow> bool" where
  "strictEq x y = (\<not> isNaN x \<and> x = y)"

text \<open>
  An array literal read at a number: the element when the number is an index of the
  array, \<open>undefined\<close> (here \<open>None\<close>) otherwise; \<open>undefined * 255\<close> is \<open>NaN\<close>.
\<close>

fun element :: "number list \<Rightarrow> number \<Rightarrow> number option" where
  "element xs (Fin i) =
     (if i = of_int \<lfloor>i\<rfloor> \<and> 0 \<le> i \<and> nat \<lfloor>i\<rfloor> < length xs then Some (xs ! nat \<lfloor>i\<rfloor>) else None)"
| "element xs i = None"

definition timesElement :: "number option \<Rightarrow> number \<Rightarrow> number" where
  "timesElement x y = (case x of None \<Rightarrow> NaN | Some v \<Rightarrow> v * y)"

subsection \<open>HSV and HWB\<close>

definition rgbaToHsva :: "rgba \<Rightarrow> hsva" where
  "rgbaToHsva rgba =
     (let r = rgba_r rgba; g = rgba_g rgba; b = rgba_b rgba;
          max = Math_max r g b;
          delta = max - Math_min r g b;
          hh = (if truthy delta
                then (if strictEq max r then (g - b) / delta
                      else if strictEq max g then 2 + (b - r) / delta
                      else 4 + (r - g) / delta)
                else 0)
      in \<lparr>hsva_h = 60 * (if hh < 0 then hh + 6 else hh),
          hsva_s = (if truthy max then (delta / max) * 100 else 0),
          hsva_v = (max / 255) * 100,
          hsva_a = rgba_a rgba\<rparr>)"

definition hsvaToRgba :: "hsva \<Rightarrow> rgba" where
  "hsvaToRgba hsva =
     (let h = (hsva_h hsva / 360) * 6;
          s = hsva_s hsva / 100;
          v = hsva_v hsva / 100;
          hh = Math_floor h;
          b = v * (1 - s);
          c = v * (1 - (h - hh) * s);
          d = v * (1 - (1 - h + hh) * s);
          module = remainder hh 6
      in \<lparr>rgba_r = timesElement (element [v, c, b, b, d, v] module) 255,
          rgba_g = timesElement (element [d, v, v, c, b, b] module) 255,
          rgba_b = timesElement (element [b, b, d, v, v, c] module) 255,
          rgba_a = hsva_a hsva\<rparr>)"

definition clampHwba :: "hwba \<Rightarrow> hwba" where
  "clampHwba hwba =
     \<lparr>hwba_h = clampHue (hwba_h hwba),
      hwba_w = clamp (hwba_w hwba) 0 100,
      hwba_b = clamp (hwba_b hwba) 0 100,
      hwba_a = clamp (hwba_a hwba) 0 1\<rparr>"

definition roundHwba :: "hwba \<Rightarrow> int \<Rightarrow> hwba" where
  "roundHwba hwba digits =
     \<lparr>hwba_h = round_num (hwba_h hwba) digits,
      hwba_w = round_num (hwba_w hwba) digits,
      hwba_b = round_num (hwba_b hwba) digits,
      hwba_a = round_num (hwba_a hwba)
                 (if ALPHA_PRECISION > digits then ALPHA_PRECISION else digits)\<rparr>"

definition rgbaToHwba :: "rgba \<Rightarrow> hwba" where
  "rgbaToHwba rgba =
     (let h = hsva_h (rgbaToHsva rgba);
          w = (Math_min (rgba_r rgba) (rgba_g rgba) (rgba_b rgba) / 255) * 100;
          b = 100 - (Math_max (rgba_r rgba) (rgba_g rgba) (rgba_b rgba) / 255) * 100
      in \<lparr>hwba_h = h, hwba_w = w, hwba_b = b, hwba_a = rgba_a rgba\<rparr>)"

definition hwbaToRgba :: "hwba \<Rightarrow> rgba" where
  "hwbaToRgba hwba =
     hsvaToRgba
       \<lparr>hsva_h = hwba_h hwba,
        hsva_s = (if strictEq (hwba_b hwba) 100 then 0
                  else 100 - (hwba_w hwba / (100 - hwba_b hwba)) * 100),
        hsva_v = 100 - hwba_b hwba,
        hsva_a = hwba_a hwba\<rparr>"

subsection \<open>CMYK\<close>

definition clampCmyka :: "cmyka \<Rightarrow> cmyka" where
  "clampCmyka cmyka =
     \<lparr>cmyka_c = clamp (cmyka_c cmyka) 0 100,
      cmyka_m = clamp (cmyka_m cmyka) 0 100,
      cmyka_y = clamp (cmyka_y cmyka) 0 100,
      cmyka_k = clamp (cmyka_k cmyka) 0 100,
      cmyka_a = clamp (cmyka_a cmyka) 0 1\<rparr>"

definition roundCmyka :: "cmyka \<Rightarrow> int \<Rightarrow> cmyka" where
  "roundCmyka cmyka digits =
     \<lparr>cmyka_c = round_num (cmyka_c cmyka) digits,
      cmyka_m = round_num (cmyka_m cmyka) digits,
      cmyka_y = round_num (cmyka_y cmyka) digits,
      cmyka_k = round_num (cmyka_k cmyka) digits,
      cmyka_a = round_num (cmyka_a cmyka)
                  (if ALPHA_PRECISION > digits then ALPHA_PRECISION else digits)\<rparr>"

definition cmykaToRgba :: "cmyka \<Rightarrow> rgba" where
  "cmykaToRgba cmyka =
     \<lparr>rgba_r = round_num (255 * (1 - cmyka_c cmyka / 100) * (1 - cmyka_k cmyka / 100)) 0,
      rgba_g = round_num (255 * (1 - cmyka_m cmyka / 100) * (1 - cmyka_k cmyka / 100)) 0,
      rgba_b = round_num (255 * (1 - cmyka_y cmyka / 100) * (1 - cmyka_k cmyka / 100)) 0,
      rgba_a = cmyka_a cmyka\<rparr>"

definition rgbaToCmyka :: "rgba \<Rightarrow> cmyka" where
  "rgbaToCmyka rgba =
     (let k = 1 - Math_max (rgba_r rgba / 255) (rgba_g rgba / 255) (rgba_b rgba / 255);
          c = (1 - rgba_r rgba / 255 - k) / (1 - k);
          m = (1 - rgba_g rgba / 255 - k) / (1 - k);
          y = (1 - rgba_b rgba / 255 - k) / (1 - k)
      in \<lparr>cmyka_c = (if isNaN c then 0 else round_num (c * 100) 0),
          cmyka_m = (if isNaN m then 0 else round_num (m * 100) 0),
          cmyka_y = (if isNaN y then 0 else round_num (y * 100) 0),
          cmyka_k = round_num (k * 100) 0,
          cmyka_a = rgba_a rgba\<rparr>)"

subsection \<open>RGB, XYZ, LAB and LCH\<close>

definition clampRgba :: "rgba \<Rightarrow> rgba" where
  "clampRgba rgba =
     \<lparr>rgba_r = clamp (rgba_r rgba) 0 255,
      rgba_g = clamp (rgba_g rgba) 0 255,
      rgba_b = clamp (rgba_b rgba) 0 255,
      rgba_a = clamp (rgba_a rgba) 0 1\<rparr>"

definition linearizeRgbChannel :: "number \<Rightarrow> number" where
  "linearizeRgbChannel v =
     (let ratio = v / 255
      in if ratio < 0.04045 then ratio / 12.92 else Math_pow ((ratio + 0.055) / 1.055) 2.4)"

definition unlinearizeRgbChannel :: "number \<Rightarrow> number" where
  "unlinearizeRgbChannel ratio =
     (let v = (if ratio > 0.0031308 then 1.055 * Math_pow ratio (1 / 2.4) - 0.055
               else 12.92 * ratio)
      in v * 255)"

definition D50 :: xyz where
  "D50 = \<lparr>xyz_x = 96.422, xyz_y = 100, xyz_z = 82.521\<rparr>"

definition clampXyza :: "xyza \<Rightarrow> xyza" where
  "clampXyza xyza =
     \<lparr>xyza_x = clamp (xyza_x xyza) 0 (xyz_x D50),
      xyza_y = clamp (xyza_y xyza) 0 (xyz_y D50),
      xyza_z = clamp (xyza_z xyza) 0 (xyz_z D50),
      xyza_a = clamp (xyza_a xyza) 0 1\<rparr>"

definition adaptXyzaToD50 :: "xyza \<Rightarrow> xyza" where
  "adaptXyzaToD50 xyza =
     \<lparr>xyza_x = xyza_x xyza * 1.0478112 + xyza_y xyza * 0.0228866 + xyza_z xyza * (- 0.050127),
      xyza_y = xyza_x xyza * 0.0295424 + xyza_y xyza * 0.9904844 + xyza_z xyza * (- 0.0170491),
      xyza_z = xyza_x xyza * (- 0.0092345) + xyza_y xyza * 0.0150436 + xyza_z xyza * 0.7521316,
      xyza_a = xyza_a xyza\<rparr>"

text \<open>The result of \<open>adaptXyzToD65\<close> has no alpha field.\<close>

definition adaptXyzToD65 :: "xyza \<Rightarrow> xyz" where
  "adaptXyzToD65 xyza =
     \<lparr>xyz_x = xyza_x xyza * 0.9555766 + xyza_y xyza * (- 0.0230393) + xyza_z xyza * 0.0631636,
      xyz_y = xyza_x xyza * (- 0.0282895) + xyza_y xyza * 1.0099416 + xyza_z xyza * 0.0210077,
      xyz_z = xyza_x xyza * 0.0122982 + xyza_y xyza * (- 0.020483) + xyza_z xyza * 1.3299098\<rparr>"

definition xyzaToRgba :: "xyza \<Rightarrow> rgba" where
  "xyzaToRgba sourceXyza =
     (let xyz = adaptXyzToD65 sourceXyza
      in clampRgba
           \<lparr>rgba_r = unlinearizeRgbChannel
                       (0.032404542 * xyz_x xyz - 0.015371385 * xyz_y xyz - 0.004985314 * xyz_z xyz),
            rgba_g = unlinearizeRgbChannel
                       (- 0.00969266 * xyz_x xyz + 0.018760108 * xyz_y xyz + 0.00041556 * xyz_z xyz),
            rgba_b = unlinearizeRgbChannel
                       (0.000556434 * xyz_x xyz - 0.002040259 * xyz_y xyz + 0.010572252 * xyz_z xyz),
            rgba_a = xyza_a sourceXyza\<rparr>)"

definition rgbaToXyza :: "rgba \<Rightarrow> xyza" where
  "rgbaToXyza rgba =
     (let sRed = linearizeRgbChannel (rgba_r rgba);
          sGreen = linearizeRgbChannel (rgba_g rgba);
          sBlue = linearizeRgbChannel (rgba_b rgba);
          xyza = \<lparr>xyza_x = (sRed * 0.4124564 + sGreen * 0.3575761 + sBlue * 0.1804375) * 100,
                  xyza_y = (sRed * 0.2126729 + sGreen * 0.7151522 + sBlue * 0.072175) * 100,
                  xyza_z = (sRed * 0.0193339 + sGreen * 0.119192 + sBlue * 0.9503041) * 100,
                  xyza_a = rgba_a rgba\<rparr>
      in clampXyza (adaptXyzaToD50 xyza))"

text \<open>The constants \<open>e\<close> and \<open>k\<close> of the source.\<close>

definition e_lab :: number where
  "e_lab = 216 / 24389"

definition k_lab :: number where
  "k_lab = 24389 / 27"

definition rgbaToLaba :: "rgba \<Rightarrow> laba" where
  "rgbaToLaba rgba =
     (let xyza = rgbaToXyza rgba;
          x = xyza_x xyza / xyz_x D50;
          y = xyza_y xyza / xyz_y D50;
          z = xyza_z xyza / xyz_z D50;
          x = (if x > e_lab then Math_cbrt x else (k_lab * x + 16) / 116);
          y = (if y > e_lab then Math_cbrt y else (k_lab * y + 16) / 116);
          z = (if z > e_lab then Math_cbrt z else (k_lab * z + 16) / 116)
      in \<lparr>laba_l = 116 * y - 16,
          laba_a = 500 * (x - y),
          laba_b = 200 * (y - z),
          laba_alpha = xyza_a xyza\<rparr>)"

definition labaToRgba :: "laba \<Rightarrow> rgba" where
  "labaToRgba laba =
     (let y = (laba_l laba + 16) / 116;
          x = laba_a laba / 500 + y;
          z = y - laba_b laba / 200
      in xyzaToRgba
           \<lparr>xyza_x = (if Math_pow x 3 > e_lab then Math_pow x 3 else (116 * x - 16) / k_lab)
                       * xyz_x D50,
            xyza_y = (if laba_l laba > k_lab * e_lab then Math_pow ((laba_l laba + 16) / 116) 3
                      else laba_l laba / k_lab) * xyz_y D50,
            xyza_z = (if Math_pow z 3 > e_lab then Math_pow z 3 else (116 * z - 16) / k_lab)
                       * xyz_z D50,
            xyza_a = laba_alpha laba\<rparr>)"

definition clampLcha :: "lcha \<Rightarrow> lcha" where
  "clampLcha laba =
     \<lparr>lcha_l = clamp (lcha_l laba) 0 100,
      lcha_c = lcha_c laba,
      lcha_h = clampHue (lcha_h laba),
      lcha_a = lcha_a laba\<rparr>"

definition roundLcha :: "lcha \<Rightarrow> int \<Rightarrow> lcha" where
  "roundLcha laba digits =
     \<lparr>lcha_l = round_num (lcha_l laba) digits,
      lcha_c = round_num (lcha_c laba) digits,
      lcha_h = round_num (lcha_h laba) digits,
      lcha_a = round_num (lcha_a laba)
                 (if ALPHA_PRECISION > digits then ALPHA_PRECISION else digits)\<rparr>"

definition rgbaToLcha :: "rgba \<Rightarrow> lcha" where
  "rgbaToLcha rgba =
     (let laba = rgbaToLaba rgba;
          a = round_num (laba_a laba) 3;
          b = round_num (laba_b laba) 3;
          hue = 180 * (Math_atan2 b a / Math_PI)
      in \<lparr>lcha_l = laba_l laba,
          lcha_c = Math_sqrt (a * a + b * b),
          lcha_h = (if hue < 0 then hue + 360 else hue),
          lcha_a = laba_alpha laba\<rparr>)"

definition lchaToRgba :: "lcha \<Rightarrow> rgba" where
  "lchaToRgba lcha =
     labaToRgba
       \<lparr>laba_l = lcha_l lcha,
        laba_a = lcha_c lcha * Math_cos ((lcha_h lcha * Math_PI) / 180),
        laba_b = lcha_c lcha * Math_sin ((lcha_h lcha * Math_PI) / 180),
        laba_alpha = lcha_a lcha\<rparr>"

section \<open>String formatters\<close>

text \<open>
  A template literal is modelled as the list of its pieces, the literal texts and the
  interpolated numbers, in order; the rendering of a number as text is left to the
  language. No number is rendered with a slash, so a formatted colour shows an alpha
  part exactly when a literal piece contains \<open>/\<close>.
\<close>

datatype piece = Lit string | Num number

fun hasSlash :: "piece \<Rightarrow> bool" where
  "hasSlash (Lit s) = (CHR ''/'' \<in> set s)"
| "hasSlash (Num n) = False"

definition emitsAlpha :: "piece list \<Rightarrow> bool" where
  "emitsAlpha t = list_ex hasSlash t"

definition rgbaToLchaString :: "rgba \<Rightarrow> int \<Rightarrow> piece list" where
  "rgbaToLchaString rgba digits =
     (let lcha = roundLcha (rgbaToLcha rgba) digits;
          l = lcha_l lcha; c = lcha_c lcha; h = lcha_h lcha; a = lcha_a lcha
      in if a < 1
         then [Lit ''lch('', Num l, Lit ''% '', Num c, Lit '' '', Num h, Lit '' / '', Num a, Lit '')'']
         else [Lit ''lch('', Num l, Lit ''% '', Num c, Lit '' '', Num h, Lit '')''])"

definition rgbaToHwbaString :: "rgba \<Rightarrow> int \<Rightarrow> piece list" where
  "rgbaToHwbaString rgba digits =
     (let hwba = roundHwba (rgbaToHwba rgba) digits;
          h = hwba_h hwba; w = hwba_w hwba; b = hwba_b hwba; a = hwba_a hwba
      in if a < 1
         then [Lit ''hwb('', Num h, Lit '' '', Num w, Lit ''% '', Num b, Lit ''% / '', Num a, Lit '')'']
         else [Lit ''hwb('', Num h, Lit '' '', Num w, Lit ''% '', Num b, Lit ''%)''])"

definition rgbaToCmykaString :: "rgba \<Rightarrow> int \<Rightarrow> piece list" where
  "rgbaToCmykaString rgb digits =
     (let cmyka = roundCmyka (rgbaToCmyka rgb) digits;
          c = cmyka_c cmyka; m = cmyka_m cmyka; y = cmyka_y cmyka; k = cmyka_k cmyka;
          a = cmyka_a cmyka
      in if a < 1
         then [Lit ''device-cmyk('', Num c, Lit ''% '', Num m, Lit ''% '', Num y, Lit ''% '', Num k,
               Lit ''% / '', Num a, Lit '')'']
         else [Lit ''device-cmyk('', Num c, Lit ''% '', Num m, Lit ''% '', Num y, Lit ''% '', Num k,
               Lit ''%)''])"

section \<open>Luminance and contrast\<close>

definition getLuminance :: "rgba \<Rightarrow> number" where
  "getLuminance rgba =
     (let sRed = linearizeRgbChannel (rgba_r rgba);
          sGreen = linearizeRgbChannel (rgba_g rgba);
          sBlue = linearizeRgbChannel (rgba_b rgba)
      in 0.2126 * sRed + 0.7152 * sGreen + 0.0722 * sBlue)"

definition getContrast :: "rgba \<Rightarrow> rgba \<Rightarrow> number" where
  "getContrast rgb1 rgb2 =
     (let l1 = getLuminance rgb1;
          l2 = getLuminance rgb2
      in if l1 > l2 then (l1 + 0.05) / (l2 + 0.05) else (l2 + 0.05) / (l1 + 0.05))"

text \<open>
  The method \<open>contrast\<close> of the plugin, on the two colours it compares: \<open>this.rgba\<close>
  and the RGBA object that \<open>toRgb()\<close> of the second colour returns.
\<close>

definition contrast :: "rgba \<Rightarrow> rgba \<Rightarrow> number" where
  "contrast rgba rgb2 = floor_num (getContrast rgba rgb2) 2"

text \<open>A valid RGB colour has its three channels in \<open>[0, 255]\<close>.\<close>

definition validChannel :: "number \<Rightarrow> bool" where
  "validChannel v = (0 \<le> v \<and> v \<le> 255)"

definition validRgb :: "rgba \<Rightarrow> bool" where
  "validRgb rgba = (validChannel (rgba_r rgba) \<and> validChannel (rgba_g rgba) \<and> validChannel (rgba_b rgba))"

definition white :: rgba where
  "white = \<lparr>rgba_r = 255, rgba_g = 255, rgba_b = 255, rgba_a = 1\<rparr>"

definition black :: rgba where
  "black = \<lparr>rgba_r = 0, rgba_g = 0, rgba_b = 0, rgba_a = 1\<rparr>"

section \<open>Values and conversion to number\<close>

text \<open>
  The values a channel of an input object can hold: \<open>undefined\<close> (also a missing
  property), \<open>null\<close>, a boolean, a number or a string. A string is a list of
  characters with codes below 256.
\<close>

datatype jsval = JUndefined | JNull | JBoolean bool | JNumber number | JString string

definition isDigit :: "char \<Rightarrow> bool" where
  "isDigit ch = (ch \<in> set ''0123456789'')"

definition digitsValue :: "string \<Rightarrow> nat" where
  "digitsValue ds = foldl (\<lambda>n ch. 10 * n + (of_char ch - 48)) 0 ds"

text \<open>White space and line terminators, as \<open>Number\<close> strips them and \<open>\s\<close> matches them.\<close>

definition isWhiteSpace :: "char \<Rightarrow> bool" where
  "isWhiteSpace ch = (of_char ch \<in> set [9, 10, 11, 12, 13, 32, 160 :: nat])"

definition trimString :: "string \<Rightarrow> string" where
  "trimString s = rev (dropWhile isWhiteSpace (rev (dropWhile isWhiteSpace s)))"

text \<open>The exponent part of a decimal literal: nothing, or \<open>e\<close>, a sign and digits.\<close>

definition exponentPart :: "string \<Rightarrow> int option" where
  "exponentPart s =
     (case s of
        [] \<Rightarrow> Some 0
      | ch # t \<Rightarrow>
          if ch = CHR ''e'' \<or> ch = CHR ''E'' then
            (let (negative, ds) =
               (case t of
                  [] \<Rightarrow> (False, t)
                | sg # u \<Rightarrow> if sg = CHR ''-'' then (True, u)
                            else if sg = CHR ''+'' then (False, u) else (False, t))
             in if ds \<noteq> [] \<and> list_all isDigit ds
                then Some (if negative then - int (digitsValue ds) else int (digitsValue ds))
                else None)
          else None)"

text \<open>An unsigned decimal literal: \<open>Infinity\<close>, or digits with an optional fraction and exponent.\<close>

definition unsignedDecimal :: "string \<Rightarrow> number" where
  "unsignedDecimal s =
     (if s = ''Infinity'' then PosInf
      else
        let ip = takeWhile isDigit s;
            r = dropWhile isDigit s;
            (fp, r) = (case r of
                         [] \<Rightarrow> ([], r)
                       | ch # t \<Rightarrow> if ch = CHR ''.'' then (takeWhile isDigit t, dropWhile isDigit t)
                                   else ([], r))
        in if ip = [] \<and> fp = [] then NaN
           else case exponentPart r of
                  None \<Rightarrow> NaN
                | Some ex \<Rightarrow>
                    Fin ((real (digitsValue ip) + real (digitsValue fp) / 10 ^ length fp) * 10 powi ex))"

text \<open>A literal with a radix prefix (\<open>0x\<close>, \<open>0o\<close>, \<open>0b\<close>): digits of that radix, no sign.\<close>

definition radixDigit :: "nat \<Rightarrow> char \<Rightarrow> nat option" where
  "radixDigit radix ch =
     (let n = of_char ch;
          v = (if 48 \<le> n \<and> n \<le> 57 then Some (n - 48)
               else if 97 \<le> n \<and> n \<le> 102 then Some (n - 87)
               else if 65 \<le> n \<and> n \<le> 70 then Some (n - 55)
               else None)
      in case v of None \<Rightarrow> None | Some d \<Rightarrow> if d < radix then Some d else None)"

fun radixValue :: "nat \<Rightarrow> nat \<Rightarrow> string \<Rightarrow> number" where
  "radixValue radix acc [] = Fin (real acc)"
| "radixValue radix acc (ch # t) =
     (case radixDigit radix ch of
        None \<Rightarrow> NaN
      | Some d \<Rightarrow> radixValue radix (radix * acc + d) t)"

definition radixLiteral :: "string \<Rightarrow> number option" where
  "radixLiteral s =
     (case s of
        z # p # ds \<Rightarrow>
          if z = CHR ''0'' \<and> ds \<noteq> [] then
            (if p = CHR ''x'' \<or> p = CHR ''X'' then Some (radixValue 16 0 ds)
             else if p = CHR ''o'' \<or> p = CHR ''O'' then Some (radixValue 8 0 ds)
             else if p = CHR ''b'' \<or> p = CHR ''B'' then Some (radixValue 2 0 ds)
             else None)
          else None
      | _ \<Rightarrow> None)"

text \<open>
  \<open>Number\<close> applied to a string: the trimmed text is empty (0), a literal with a radix
  prefix, or a signed decimal literal; anything else is \<open>NaN\<close>.
\<close>

definition StringToNumber :: "string \<Rightarrow> number" where
  "StringToNumber str =
     (let s = trimString str
      in if s = [] then 0
         else case radixLiteral s of
                Some n \<Rightarrow> n
              | None \<Rightarrow>
                  (case s of
                     [] \<Rightarrow> 0
                   | ch # t \<Rightarrow> if ch = CHR ''-'' then - unsignedDecimal t
                               else if ch = CHR ''+'' then unsignedDecimal t
                               else unsignedDecimal s))"

fun Number :: "jsval \<Rightarrow> number" where
  "Number JUndefined = NaN"
| "Number JNull = 0"
| "Number (JBoolean b) = (if b then 1 else 0)"
| "Number (JNumber n) = n"
| "Number (JString s) = StringToNumber s"

text \<open>A value in a condition: a string counts as true unless it is empty.\<close>

fun truthyValue :: "jsval \<Rightarrow> bool" where
  "truthyValue JUndefined = False"
| "truthyValue JNull = False"
| "truthyValue (JBoolean b) = b"
| "truthyValue (JNumber n) = truthy n"
| "truthyValue (JString s) = (s \<noteq> [])"


section \<open>Object parsers\<close>







section \<open>String parsers\<close>

subsection \<open>Regular expressions\<close>

text \<open>
  The part of the regular expression language that the three matchers use. The
  quantifiers \<open>*\<close> and \<open>+\<close> occur on character classes only; \<open>Group i\<close> is the
  \<open>i\<close>-th capturing group. All three expressions carry the flag \<open>i\<close>, so \<open>Text\<close> compares
  letters without regard to case.
\<close>

datatype regex =
    Text string
  | OneOf "char list"
  | Many "char list"
  | Many1 "char list"
  | Seq regex regex
  | Alt regex regex
  | Opt regex
  | Group nat regex

definition toLowerCase :: "char \<Rightarrow> char" where
  "toLowerCase ch =
     (let n = (of_char ch :: nat) in if 65 \<le> n \<and> n \<le> 90 then char_of (n + 32) else ch)"

fun matchText :: "string \<Rightarrow> string \<Rightarrow> string option" where
  "matchText [] s = Some s"
| "matchText (p # ps) [] = None"
| "matchText (p # ps) (ch # s) = (if toLowerCase p = toLowerCase ch then matchText ps s else None)"

text \<open>
  Matching with backtracking, in the style of the language standard: a matcher takes
  the rest of the input, the captures so far and a continuation, and returns the
  captures of the first successful alternative. A greedy quantifier tries the longest
  run first.
\<close>

type_synonym captures = "jsval list"

fun matchMany :: "char list \<Rightarrow> (string \<Rightarrow> captures \<Rightarrow> captures option) \<Rightarrow> string \<Rightarrow> captures
    \<Rightarrow> captures option" where
  "matchMany cls k [] caps = k [] caps"
| "matchMany cls k (ch # s) caps =
     (if ch \<in> set cls
      then (case matchMany cls k s caps of Some r \<Rightarrow> Some r | None \<Rightarrow> k (ch # s) caps)
      else k (ch # s) caps)"

fun matcher :: "regex \<Rightarrow> (string \<Rightarrow> captures \<Rightarrow> captures option) \<Rightarrow> string \<Rightarrow> captures
    \<Rightarrow> captures option" where
  "matcher (Text t) k s caps = (case matchText t s of None \<Rightarrow> None | Some rest \<Rightarrow> k rest caps)"
| "matcher (OneOf cls) k s caps =
     (case s of [] \<Rightarrow> None | ch # rest \<Rightarrow> if ch \<in> set cls then k rest caps else None)"
| "matcher (Many cls) k s caps = matchMany cls k s caps"
| "matcher (Many1 cls) k s caps =
     (case s of [] \<Rightarrow> None | ch # rest \<Rightarrow> if ch \<in> set cls then matchMany cls k rest caps else None)"
| "matcher (Seq r1 r2) k s caps = matcher r1 (\<lambda>s' caps'. matcher r2 k s' caps') s caps"
| "matcher (Alt r1 r2) k s caps =
     (case matcher r1 k s caps of Some r \<Rightarrow> Some r | None \<Rightarrow> matcher r2 k s caps)"
| "matcher (Opt r) k s caps =
     (case matcher r k s caps of Some r \<Rightarrow> Some r | None \<Rightarrow> k s caps)"
| "matcher (Group i r) k s caps =
     matcher r (\<lambda>s' caps'. k s' (caps'[i := JString (take (length s - length s') s)])) s caps"

text \<open>
  \<open>exec\<close> for an expression anchored at both ends (\<open>^\<close> \<dots> \<open>$\<close>) with \<open>n\<close> groups: the
  match array (entry 0 is the whole input, a group that did not take part is
  \<open>undefined\<close>) or \<open>null\<close>.
\<close>

definition exec :: "nat \<Rightarrow> regex \<Rightarrow> string \<Rightarrow> captures option" where
  "exec n re input =
     matcher re (\<lambda>rest caps. if rest = [] then Some caps else None) input
       (JString input # replicate n JUndefined)"

definition seqs :: "regex list \<Rightarrow> regex" where
  "seqs rs = foldr Seq rs (Text [])"

definition digit :: "char list" where
  "digit = ''0123456789''"

definition space :: "char list" where
  "space = map char_of [9, 10, 11, 12, 13, 32, 160 :: nat]"

text \<open>The token \<open>([+-]?\d*\.?\d+)\<close> as group \<open>i\<close>, and \<open>(%)?\<close> as group \<open>i\<close>.\<close>

definition numberGroup :: "nat \<Rightarrow> regex" where
  "numberGroup i = Group i (seqs [Opt (OneOf ''+-''), Many digit, Opt (Text ''.''), Many1 digit])"

definition percentGroup :: "nat \<Rightarrow> regex" where
  "percentGroup i = Opt (Group i (Text ''%''))"

definition unitGroup :: "nat \<Rightarrow> regex" where
  "unitGroup i = Opt (Group i (Alt (Text ''deg'') (Alt (Text ''rad'') (Alt (Text ''grad'') (Text ''turn'')))))"

definition alphaPart :: "nat \<Rightarrow> regex" where
  "alphaPart i = Opt (seqs [Text ''/'', Many space, numberGroup i, percentGroup (i + 1), Many space])"

definition lchaMatcher :: regex where
  "lchaMatcher =
     seqs [Text ''lch('', Many space, numberGroup 1, Text ''%'', Many1 space, numberGroup 2,
           Many1 space, numberGroup 3, unitGroup 4, Many space, alphaPart 5, Text '')'']"

definition hwbaMatcher :: regex where
  "hwbaMatcher =
     seqs [Text ''hwb('', Many space, numberGroup 1, unitGroup 2, Many1 space, numberGroup 3,
           Text ''%'', Many1 space, numberGroup 4, Text ''%'', Many space, alphaPart 5, Text '')'']"

definition cmykMatcher :: regex where
  "cmykMatcher =
     seqs [Text ''device-cmyk('', Many space, numberGroup 1, percentGroup 2, Many1 space,
           numberGroup 3, percentGroup 4, Many1 space, numberGroup 5, percentGroup 6, Many1 space,
           numberGroup 7, percentGroup 8, Many space, alphaPart 9, Text '')'']"

subsection \<open>The parsers\<close>

definition ANGLE_UNITS :: "string \<rightharpoonup> number" where
  "ANGLE_UNITS = [''grad'' \<mapsto> 360 / 400, ''turn'' \<mapsto> 360, ''rad'' \<mapsto> 360 / (Math_PI * 2)]"

text \<open>
  \<open>parseHue(value, unit = "deg")\<close>: the unit is looked up as it was written in the
  input, and a unit that is not a key of \<open>ANGLE_UNITS\<close> has the factor 1.
\<close>

definition parseHue :: "jsval \<Rightarrow> jsval \<Rightarrow> number" where
  "parseHue v unit =
     (let unit = (case unit of JUndefined \<Rightarrow> JString ''deg'' | u \<Rightarrow> u);
          factor = (case unit of JString u \<Rightarrow> ANGLE_UNITS u | _ \<Rightarrow> None)
      in Number v * (case factor of None \<Rightarrow> 1 | Some f \<Rightarrow> if truthy f then f else 1))"

definition parseLchaString :: "string \<Rightarrow> rgba option" where
  "parseLchaString input =
     (case exec 6 lchaMatcher input of
        None \<Rightarrow> None
      | Some match \<Rightarrow>
          Some (lchaToRgba (clampLcha
            \<lparr>lcha_l = Number (match ! 1),
             lcha_c = Number (match ! 2),
             lcha_h = parseHue (match ! 3) (match ! 4),
             lcha_a = (if match ! 5 = JUndefined then 1
                       else Number (match ! 5) / (if truthyValue (match ! 6) then 100 else 1))\<rparr>)))"

definition parseHwbaString :: "string \<Rightarrow> rgba option" where
  "parseHwbaString input =
     (case exec 6 hwbaMatcher input of
        None \<Rightarrow> None
      | Some match \<Rightarrow>
          Some (hwbaToRgba (clampHwba
            \<lparr>hwba_h = parseHue (match ! 1) (match ! 2),
             hwba_w = Number (match ! 3),
             hwba_b = Number (match ! 4),
             hwba_a = (if match ! 5 = JUndefined then 1
                       else Number (match ! 5) / (if truthyValue (match ! 6) then 100 else 1))\<rparr>)))"

definition parseCmykaString :: "string \<Rightarrow> rgba option" where
  "parseCmykaString input =
     (case exec 10 cmykMatcher input of
        None \<Rightarrow> None
      | Some match \<Rightarrow>
          Some (cmykaToRgba (clampCmyka
            \<lparr>cmyka_c = Number (match ! 1) * (if truthyValue (match ! 2) then 1 else 100),
             cmyka_m = Number (match ! 3) * (if truthyValue (match ! 4) then 1 else 100),
             cmyka_y = Number (match ! 5) * (if truthyValue (match ! 6) then 1 else 100),
             cmyka_k = Number (match ! 7) * (if truthyValue (match ! 8) then 1 else 100),
             cmyka_a = (if match ! 9 = JUndefined then 1
                        else Number (match ! 9) / (if truthyValue (match ! 10) then 100 else 1))\<rparr>)))"

section \<open>Round-trip error\<close>



subsection \<open>The transfer functions over the reals\<close>






section \<open>Perceptual difference\<close>

definition roundLaba :: "laba \<Rightarrow> int \<Rightarrow> laba" where
  "roundLaba laba digits =
     \<lparr>laba_l = round_num (laba_l laba) digits,
      laba_a = round_num (laba_a laba) digits,
      laba_b = round_num (laba_b laba) digits,
      laba_alpha = round_num (laba_alpha laba)
                     (if ALPHA_PRECISION > digits then ALPHA_PRECISION else digits)\<rparr>"

text \<open>
  The CIEDE2000 difference of two LAB colours. A variable that the source assigns
  again (\<open>h1\<close>, \<open>h2\<close>, \<open>dh\<close>, \<open>H\<close>) is bound again; \<open>**\<close> is \<open>Math_pow\<close>.
\<close>

definition getDeltaE00 :: "laba \<Rightarrow> laba \<Rightarrow> number" where
  "getDeltaE00 color1 color2 =
     (let l1 = laba_l color1; a1 = laba_a color1; b1 = laba_b color1;
          l2 = laba_l color2; a2 = laba_a color2; b2 = laba_b color2;
          rad2deg = 180 / Math_PI;
          deg2rad = Math_PI / 180;
          c1 = Math_pow (Math_pow a1 2 + Math_pow b1 2) 0.5;
          c2 = Math_pow (Math_pow a2 2 + Math_pow b2 2) 0.5;
          mc = (c1 + c2) / 2;
          ml = (l1 + l2) / 2;
          c7 = Math_pow mc 7;
          g = 0.5 * (1 - Math_pow (c7 / (c7 + Math_pow 25 7)) 0.5);
          a11 = a1 * (1 + g);
          a22 = a2 * (1 + g);
          c11 = Math_pow (Math_pow a11 2 + Math_pow b1 2) 0.5;
          c22 = Math_pow (Math_pow a22 2 + Math_pow b2 2) 0.5;
          mc1 = (c11 + c22) / 2;
          h1 = (if strictEq a11 0 \<and> strictEq b1 0 then 0 else Math_atan2 b1 a11 * rad2deg);
          h2 = (if strictEq a22 0 \<and> strictEq b2 0 then 0 else Math_atan2 b2 a22 * rad2deg);
          h1 = (if h1 < 0 then h1 + 360 else h1);
          h2 = (if h2 < 0 then h2 + 360 else h2);
          dh = h2 - h1;
          dhAbs = Math_abs (h2 - h1);
          dh = (if dhAbs > 180 \<and> h2 \<le> h1 then dh + 360
                else if dhAbs > 180 \<and> h2 > h1 then dh - 360
                else dh);
          H = h1 + h2;
          H = (if dhAbs \<le> 180 then H / 2
               else (if h1 + h2 < 360 then H + 360 else H - 360) / 2);
          T = 1 - 0.17 * Math_cos (deg2rad * (H - 30))
                + 0.24 * Math_cos (deg2rad * 2 * H)
                + 0.32 * Math_cos (deg2rad * (3 * H + 6))
                - 0.2 * Math_cos (deg2rad * (4 * H - 63));
          dL = l2 - l1;
          dC = c22 - c11;
          dH = 2 * Math_sin ((deg2rad * dh) / 2) * Math_pow (c11 * c22) 0.5;
          sL = 1 + (0.015 * Math_pow (ml - 50) 2) / Math_pow (20 + Math_pow (ml - 50) 2) 0.5;
          sC = 1 + 0.045 * mc1;
          sH = 1 + 0.015 * mc1 * T;
          dTheta = 30 * Math_exp (- 1 * Math_pow ((H - 275) / 25) 2);
          Rc = 2 * Math_pow (c7 / (c7 + Math_pow 25 7)) 0.5;
          Rt = - Rc * Math_sin (deg2rad * 2 * dTheta);
          kl = 1;
          kc = 1;
          kh = 1
      in Math_pow
           (Math_pow (dL / kl / sL) 2 + Math_pow (dC / kc / sC) 2 + Math_pow (dH / kh / sH) 2
            + (Rt * dC * dH) / (kc * sC * kh * sH))
           0.5)"

text \<open>The methods \<open>toLab\<close> and \<open>delta\<close> of the plugin, on the RGBA values of the colours.\<close>

definition toLab :: "rgba \<Rightarrow> int \<Rightarrow> laba" where
  "toLab rgba digits = roundLaba (rgbaToLaba rgba) digits"

definition delta :: "rgba \<Rightarrow> rgba \<Rightarrow> number" where
  "delta rgba compared =
     (let delta = getDeltaE00 (toLab rgba 2) (toLab compared 2) / 100
      in clamp (round_num delta 3) 0 1)"

subsection \<open>The difference formula over the reals\<close>

text \<open>
  The formula of \<open>getDeltaE00\<close> on real numbers, up to the final square root. It is
  used in the proofs only: on finite arguments \<open>getDeltaE00\<close> is shown to compute the
  square root of \<open>radicand\<close>.
\<close>

definition chroma :: "real \<Rightarrow> real \<Rightarrow> real" where
  "chroma a b = sqrt (a ^ 2 + b ^ 2)"

definition chromaRatio :: "real \<Rightarrow> real" where
  "chromaRatio mc = sqrt (mc ^ 7 / (mc ^ 7 + 25 ^ 7))"

definition hueDegrees :: "real \<Rightarrow> real \<Rightarrow> real" where
  "hueDegrees a b =
     (let h = (if a = 0 \<and> b = 0 then 0 else atan2 b a * (180 / pi))
      in if h < 0 then h + 360 else h)"

definition hueDifference :: "real \<Rightarrow> real \<Rightarrow> real" where
  "hueDifference h1 h2 =
     (if 180 < \<bar>h2 - h1\<bar> \<and> h2 \<le> h1 then h2 - h1 + 360
      else if 180 < \<bar>h2 - h1\<bar> \<and> h1 < h2 then h2 - h1 - 360
      else h2 - h1)"

definition hueMean :: "real \<Rightarrow> real \<Rightarrow> real" where
  "hueMean h1 h2 =
     (if \<bar>h2 - h1\<bar> \<le> 180 then (h1 + h2) / 2
      else (if h1 + h2 < 360 then h1 + h2 + 360 else h1 + h2 - 360) / 2)"

definition hueWeight :: "real \<Rightarrow> real" where
  "hueWeight H =
     1 - 17 / 100 * cos (pi / 180 * (H - 30)) + 24 / 100 * cos (pi / 180 * 2 * H)
       + 32 / 100 * cos (pi / 180 * (3 * H + 6)) - 2 / 10 * cos (pi / 180 * (4 * H - 63))"

definition lightnessScale :: "real \<Rightarrow> real" where
  "lightnessScale ml = 1 + (15 / 1000 * (ml - 50) ^ 2) / sqrt (20 + (ml - 50) ^ 2)"

definition rotation :: "real \<Rightarrow> real \<Rightarrow> real" where
  "rotation mc H =
     - (2 * chromaRatio mc) * sin (pi / 180 * 2 * (30 * exp (- 1 * ((H - 275) / 25) ^ 2)))"

definition radicand :: "real \<Rightarrow> real \<Rightarrow> real \<Rightarrow> real \<Rightarrow> real \<Rightarrow> real \<Rightarrow> real" where
  "radicand l1 a1 b1 l2 a2 b2 =
     (let mc = (chroma a1 b1 + chroma a2 b2) / 2;
          ml = (l1 + l2) / 2;
          g = 1 / 2 * (1 - chromaRatio mc);
          a11 = a1 * (1 + g);
          a22 = a2 * (1 + g);
          c11 = chroma a11 b1;
          c22 = chroma a22 b2;
          mc1 = (c11 + c22) / 2;
          h1 = hueDegrees a11 b1;
          h2 = hueDegrees a22 b2;
          H = hueMean h1 h2;
          dL = l2 - l1;
          dC = c22 - c11;
          dH = 2 * sin (pi / 180 * hueDifference h1 h2 / 2) * sqrt (c11 * c22);
          sL = lightnessScale ml;
          sC = 1 + 45 / 1000 * mc1;
          sH = 1 + 15 / 1000 * mc1 * hueWeight H
      in (dL / sL) ^ 2 + (dC / sC) ^ 2 + (dH / sH) ^ 2
         + rotation mc H * dC * dH / (sC * sH))"

section \<open>Properties\<close>

subsection \<open>Arithmetic on finite numbers\<close>

lemma Fin_zero [simp]: "(0 :: number) = Fin 0"
  by (simp add: zero_number_def)

lemma Fin_one [simp]: "(1 :: number) = Fin 1"
  by (simp add: one_number_def)

lemma Fin_numeral [simp]: "(numeral k :: number) = Fin (numeral k)"
proof (induction k)
  case One
  show ?case by (simp only: numeral_One one_number_def)
next
  case (Bit0 k)
  have "(numeral (num.Bit0 k) :: number) = numeral k + numeral k"
    by (rule numeral_Bit0)
  also have "\<dots> = Fin (numeral k + numeral k)"
    by (simp only: Bit0.IH plus_number.simps)
  finally show ?case
    by (simp only: numeral_Bit0 [symmetric])
next
  case (Bit1 k)
  have "(numeral (num.Bit1 k) :: number) = numeral k + numeral k + 1"
    by (rule numeral_Bit1)
  also have "\<dots> = Fin (numeral k + numeral k + 1)"
    by (simp only: Bit1.IH plus_number.simps one_number_def)
  finally show ?case
    by (simp only: numeral_Bit1 [symmetric])
qed

lemma Fin_power [simp]: "Fin x ^ n = Fin (x ^ n)"
  by (induction n) simp_all

lemma divide_number [simp]: "(x :: number) / y = num_divide x y"
  by (simp add: divide_number_def)

lemma Fin_minus [simp]: "Fin x - Fin y = Fin (x - y)"
  by (simp add: minus_number_def)

lemma pow10_0 [simp]: "pow10 0 = Fin 1"
  by (simp add: pow10_def)

lemma round_num_0_Fin [simp]: "round_num (Fin x) 0 = Fin (of_int \<lfloor>x + 1 / 2\<rfloor>)"
  by (simp add: round_num_def)

subsection \<open>Hue clamping\<close>

text \<open>
  C1. \<open>clampHue\<close> is claimed to return 0 for a number that is not finite and a value
  of \<open>[0, 360)\<close> otherwise. The source replaces a number that is not finite by 0 and
  then adds 360 to everything that is not strictly positive: \<open>NaN\<close>, the infinities,
  0 and every multiple of 360 come out as 360. The two finite examples of the claim
  hold: \<open>-1\<close> gives 359 and 361 gives 1.
\<close>

theorem clampHue_not_finite_is_360:
  "clampHue NaN = Fin 360 \<and> clampHue PosInf = Fin 360 \<and> clampHue NegInf = Fin 360
   \<and> clampHue (Fin 0) = Fin 360 \<and> clampHue (Fin 720) = Fin 360
   \<and> clampHue (Fin (- 1)) = Fin 359 \<and> clampHue (Fin 361) = Fin 1"
  by (simp add: clampHue_def trunc_def)

subsection \<open>CMYK of black\<close>

text \<open>
  C3. RGB black, with any alpha, converts to CMYK \<open>(0, 0, 0, 100)\<close>: \<open>k\<close> is 1, each of
  the three quotients by \<open>1 - k\<close> is \<open>0 / 0 = NaN\<close>, and each \<open>NaN\<close> is replaced by 0.
\<close>

theorem rgbaToCmyka_black:
  "rgbaToCmyka \<lparr>rgba_r = 0, rgba_g = 0, rgba_b = 0, rgba_a = alpha\<rparr>
     = \<lparr>cmyka_c = 0, cmyka_m = 0, cmyka_y = 0, cmyka_k = 100, cmyka_a = alpha\<rparr>
   \<and> 1 - Math_max (0 / 255) (0 / 255) (0 / 255) = 1
   \<and> isNaN ((1 - 0 / 255 - 1) / (1 - (1 :: number)))"
  by (simp add: rgbaToCmyka_def Math_max_def)

subsection \<open>HWB of full blackness\<close>

lemma floor_remainder_bounds:
  fixes x :: real
  shows "0 \<le> x - 360 * of_int \<lfloor>x / 360\<rfloor>" "x - 360 * of_int \<lfloor>x / 360\<rfloor> < 360"
proof -
  have "of_int \<lfloor>x / 360\<rfloor> \<le> x / 360" "x / 360 < of_int \<lfloor>x / 360\<rfloor> + 1"
    by linarith+
  then show "0 \<le> x - 360 * of_int \<lfloor>x / 360\<rfloor>" "x - 360 * of_int \<lfloor>x / 360\<rfloor> < 360"
    by (simp_all add: field_simps)
qed

lemma remainder_360:
  "remainder (Fin d) (Fin 360) =
     Fin (if 0 \<le> d then d - 360 * of_int \<lfloor>d / 360\<rfloor>
          else - (- d - 360 * of_int \<lfloor>- d / 360\<rfloor>))"
  by (simp add: trunc_def)

text \<open>Whatever the argument, \<open>clampHue\<close> returns a finite hue in \<open>(0, 360]\<close>.\<close>

lemma clampHue_range: "\<exists>h. clampHue d = Fin h \<and> 0 < h \<and> h \<le> 360"
proof (cases d)
  case (Fin x)
  show ?thesis
  proof (cases "0 \<le> x")
    case True
    with Fin floor_remainder_bounds [of x] show ?thesis
      by (auto simp: clampHue_def remainder_360 Let_def simp del: remainder.simps)
  next
    case False
    with Fin floor_remainder_bounds [of "- x"] show ?thesis
      by (auto simp: clampHue_def remainder_360 Let_def simp del: remainder.simps)
  qed
qed (simp_all add: clampHue_def)

lemma remainder_of_int_6:
  assumes "0 \<le> n"
  shows "remainder (Fin (of_int n)) (Fin 6) = Fin (of_int (n mod 6))"
proof -
  have "\<lfloor>(of_int n :: real) / 6\<rfloor> = n div 6"
    using floor_divide_of_int_eq [of n 6, where ?'a = real] by simp
  moreover have "real_of_int n - 6 * real_of_int (n div 6) = real_of_int (n mod 6)"
    by (simp add: minus_div_mult_eq_mod [symmetric] algebra_simps)
  ultimately show ?thesis using assms by (simp add: trunc_def)
qed

lemma element_const6:
  assumes "0 \<le> m" "m < 6"
  shows "element [x, x, x, x, x, x] (Fin (of_int m)) = Some x"
proof -
  have "nat m < 6" using assms by simp
  then have "[x, x, x, x, x, x] ! nat m = x"
    by (auto simp: nth_Cons')
  then show ?thesis using assms by simp
qed

lemma hwbaToRgba_black:
  assumes "0 \<le> h"
  shows "hwbaToRgba \<lparr>hwba_h = Fin h, hwba_w = w, hwba_b = Fin 100, hwba_a = alpha\<rparr>
           = \<lparr>rgba_r = Fin 0, rgba_g = Fin 0, rgba_b = Fin 0, rgba_a = alpha\<rparr>"
proof -
  define n where "n = \<lfloor>h / 360 * 6\<rfloor>"
  have n0: "0 \<le> n" using assms by (simp add: n_def)
  have m: "0 \<le> n mod 6" "n mod 6 < 6" by simp_all
  show ?thesis
    using remainder_of_int_6 [OF n0] element_const6 [OF m, of "Fin 0"]
    by (simp add: hwbaToRgba_def hsvaToRgba_def strictEq_def timesElement_def n_def Let_def)
qed

text \<open>
  C4. An HWB colour of blackness 100 converts to pure black, whatever its whiteness
  (\<open>NaN\<close> included) and its alpha: saturation is forced to 0, so nothing is divided by
  \<open>100 - blackness = 0\<close>, and value is 0. This holds for every hue of the model (finite,
  not negative), and for every number as hue once \<open>clampHwba\<close> has been applied, which
  both parsers do before they call \<open>hwbaToRgba\<close>.
\<close>

theorem hwbaToRgba_full_blackness:
  "(0 \<le> h \<longrightarrow>
      hwbaToRgba \<lparr>hwba_h = Fin h, hwba_w = w, hwba_b = 100, hwba_a = alpha\<rparr>
        = \<lparr>rgba_r = 0, rgba_g = 0, rgba_b = 0, rgba_a = alpha\<rparr>)
   \<and> hwbaToRgba (clampHwba \<lparr>hwba_h = hue, hwba_w = w, hwba_b = 100, hwba_a = alpha\<rparr>)
        = \<lparr>rgba_r = 0, rgba_g = 0, rgba_b = 0, rgba_a = clamp alpha 0 1\<rparr>"
proof -
  obtain x where x: "clampHue hue = Fin x" "0 < x"
    using clampHue_range [of hue] by blast
  have "clamp (Fin 100) (Fin 0) (Fin 100) = Fin 100"
    by (simp add: clamp_def)
  with x hwbaToRgba_black [of x] hwbaToRgba_black [of h] show ?thesis
    by (simp add: clampHwba_def)
qed

theorem hwbaToRgba_full_blackness_witness:
  "hwbaToRgba \<lparr>hwba_h = Fin 120, hwba_w = Fin 30, hwba_b = 100, hwba_a = Fin (1 / 2)\<rparr>
     = \<lparr>rgba_r = 0, rgba_g = 0, rgba_b = 0, rgba_a = Fin (1 / 2)\<rparr>
   \<and> hwbaToRgba (clampHwba \<lparr>hwba_h = NaN, hwba_w = Fin 30, hwba_b = 100, hwba_a = Fin (1 / 2)\<rparr>)
     = \<lparr>rgba_r = 0, rgba_g = 0, rgba_b = 0, rgba_a = Fin (1 / 2)\<rparr>"
  using hwbaToRgba_full_blackness [of 120 "Fin 30" "Fin (1 / 2)" NaN]
  by (simp add: clamp_def)

subsection \<open>Alpha precision\<close>

text \<open>
  C9. For every digit count \<open>d\<close>, \<open>roundLcha\<close>, \<open>roundHwba\<close> and \<open>roundCmyka\<close> round the
  alpha channel with \<open>max(3, d)\<close> digits: alpha is rounded to at least 3 digits,
  whatever precision is asked for the other channels.
\<close>

theorem round_alpha_precision_floor:
  "lcha_a (roundLcha lcha d) = round_num (lcha_a lcha) (max 3 d)
   \<and> hwba_a (roundHwba hwba d) = round_num (hwba_a hwba) (max 3 d)
   \<and> cmyka_a (roundCmyka cmyka d) = round_num (cmyka_a cmyka) (max 3 d)"
  by (simp add: roundLcha_def roundHwba_def roundCmyka_def ALPHA_PRECISION_def max_def)

subsection \<open>Alpha suffix of the formatters\<close>

lemma rgbaToLcha_alpha: "lcha_a (rgbaToLcha rgba) = clamp (rgba_a rgba) 0 1"
  by (simp add: rgbaToLcha_def rgbaToLaba_def rgbaToXyza_def clampXyza_def adaptXyzaToD50_def Let_def)

lemma emitsAlpha_lch:
  "emitsAlpha (rgbaToLchaString rgba d) = (round_num (clamp (rgba_a rgba) 0 1) (max 3 d) < 1)"
  by (simp add: rgbaToLchaString_def emitsAlpha_def Let_def roundLcha_def rgbaToLcha_alpha ALPHA_PRECISION_def max_def)

lemma emitsAlpha_hwb:
  "emitsAlpha (rgbaToHwbaString rgba d) = (round_num (rgba_a rgba) (max 3 d) < 1)"
  by (simp add: rgbaToHwbaString_def emitsAlpha_def Let_def roundHwba_def rgbaToHwba_def ALPHA_PRECISION_def max_def)

lemma emitsAlpha_cmyk:
  "emitsAlpha (rgbaToCmykaString rgba d) = (round_num (rgba_a rgba) (max 3 d) < 1)"
  by (simp add: rgbaToCmykaString_def emitsAlpha_def Let_def roundCmyka_def rgbaToCmyka_def ALPHA_PRECISION_def max_def)

lemma round_num_one: "0 \<le> d \<Longrightarrow> round_num (Fin 1) d = Fin 1"
proof -
  assume d: "0 \<le> d"
  have p: "(10::real) powi d = of_int (10 ^ nat d)"
    using d by (simp add: power_int_def)
  have "\<lfloor>(of_int k :: real) + 1 / 2\<rfloor> = k" for k
    by linarith
  then show ?thesis
    unfolding round_num_def pow10_def Let_def p by simp
qed

text \<open>
  C5. For every RGBA value and every digit count, each formatter emits the alpha suffix
  exactly when the rounded alpha, rounded with \<open>max(3, d)\<close> digits, is below 1 (the LCH
  conversion clamps alpha to \<open>[0, 1]\<close> first). Alpha 1 never has a suffix; alpha
  0.999995 rounds to 1 at the 3 digits used for every \<open>d \<le> 3\<close>, and has none either.
\<close>

theorem alpha_suffix_only_below_one:
  "emitsAlpha (rgbaToLchaString rgba d) = (round_num (clamp (rgba_a rgba) 0 1) (max 3 d) < 1)
   \<and> emitsAlpha (rgbaToHwbaString rgba d) = (round_num (rgba_a rgba) (max 3 d) < 1)
   \<and> emitsAlpha (rgbaToCmykaString rgba d) = (round_num (rgba_a rgba) (max 3 d) < 1)
   \<and> \<not> emitsAlpha (rgbaToLchaString (rgba\<lparr>rgba_a := 1\<rparr>) d)
   \<and> \<not> emitsAlpha (rgbaToHwbaString (rgba\<lparr>rgba_a := 1\<rparr>) d)
   \<and> \<not> emitsAlpha (rgbaToCmykaString (rgba\<lparr>rgba_a := 1\<rparr>) d)
   \<and> (d \<le> 3 \<longrightarrow>
        \<not> emitsAlpha (rgbaToLchaString (rgba\<lparr>rgba_a := Fin 0.999995\<rparr>) d)
        \<and> \<not> emitsAlpha (rgbaToHwbaString (rgba\<lparr>rgba_a := Fin 0.999995\<rparr>) d)
        \<and> \<not> emitsAlpha (rgbaToCmykaString (rgba\<lparr>rgba_a := Fin 0.999995\<rparr>) d))"
proof -
  have one: "round_num (Fin 1) (max 3 d) = Fin 1"
    by (rule round_num_one) simp
  have c1: "clamp (Fin 1) (Fin 0) (Fin 1) = Fin 1"
    by (simp add: clamp_def)
  have below: "\<not> round_num (clamp (Fin 0.999995) 0 1) 3 < 1" "\<not> round_num (Fin 0.999995) 3 < 1"
    by (simp_all add: clamp_def round_num_def pow10_def)
  have "d \<le> 3 \<Longrightarrow> max 3 d = 3"
    by simp
  with below show ?thesis
    by (simp add: emitsAlpha_lch emitsAlpha_hwb emitsAlpha_cmyk one c1)
qed

theorem alpha_suffix_only_below_one_witness:
  "\<not> emitsAlpha (rgbaToLchaString \<lparr>rgba_r = 255, rgba_g = 0, rgba_b = 0, rgba_a = Fin 0.999995\<rparr> 2)
   \<and> \<not> emitsAlpha (rgbaToHwbaString \<lparr>rgba_r = 255, rgba_g = 0, rgba_b = 0, rgba_a = Fin 0.999995\<rparr> 2)
   \<and> \<not> emitsAlpha (rgbaToCmykaString \<lparr>rgba_r = 255, rgba_g = 0, rgba_b = 0, rgba_a = Fin 0.999995\<rparr> 2)
   \<and> emitsAlpha (rgbaToCmykaString \<lparr>rgba_r = 255, rgba_g = 0, rgba_b = 0, rgba_a = Fin 0.5\<rparr> 2)"
  using alpha_suffix_only_below_one
          [of "\<lparr>rgba_r = 255, rgba_g = 0, rgba_b = 0, rgba_a = Fin 0.999995\<rparr>" 2]
        alpha_suffix_only_below_one
          [of "\<lparr>rgba_r = 255, rgba_g = 0, rgba_b = 0, rgba_a = Fin 0.5\<rparr>" 2]
  by (simp add: round_num_def pow10_def)

subsection \<open>Luminance and contrast\<close>

lemma validChannel_Fin: "validChannel v \<Longrightarrow> \<exists>x. v = Fin x \<and> 0 \<le> x \<and> x \<le> 255"
  by (cases v) (simp_all add: validChannel_def)

lemma linearize_unit:
  assumes "validChannel v"
  shows "\<exists>y. linearizeRgbChannel v = Fin y \<and> 0 \<le> y \<and> y \<le> 1"
proof -
  obtain x where x: "v = Fin x" "0 \<le> x" "x \<le> 255"
    using validChannel_Fin [OF assms] by blast
  show ?thesis
  proof (cases "x / 255 < 4045 / 100000")
    case True
    with x have "linearizeRgbChannel v = Fin (x / 255 / (1292 / 100))"
      by (simp add: linearizeRgbChannel_def Let_def)
    moreover have "0 \<le> x / 255 / (1292 / 100)" "x / 255 / (1292 / 100) \<le> 1"
      using x by simp_all
    ultimately show ?thesis by blast
  next
    case False
    define b where "b = (x / 255 + 55 / 1000) / (1055 / 1000)"
    have b: "0 < b" "b \<le> 1" using x by (simp_all add: b_def)
    then have "0 \<le> b powr (24 / 10)" "b powr (24 / 10) \<le> 1"
      by (simp_all add: powr_le1)
    moreover from False x b have "linearizeRgbChannel v = Fin (b powr (24 / 10))"
      by (simp add: linearizeRgbChannel_def Let_def b_def)
    ultimately show ?thesis by blast
  qed
qed

lemma luminance_unit:
  assumes "validRgb c"
  shows "\<exists>l. getLuminance c = Fin l \<and> 0 \<le> l \<and> l \<le> 1"
proof -
  have v: "validChannel (rgba_r c)" "validChannel (rgba_g c)" "validChannel (rgba_b c)"
    using assms by (simp_all add: validRgb_def)
  obtain x where x: "linearizeRgbChannel (rgba_r c) = Fin x" "0 \<le> x" "x \<le> 1"
    using linearize_unit [OF v(1)] by blast
  obtain y where y: "linearizeRgbChannel (rgba_g c) = Fin y" "0 \<le> y" "y \<le> 1"
    using linearize_unit [OF v(2)] by blast
  obtain z where z: "linearizeRgbChannel (rgba_b c) = Fin z" "0 \<le> z" "z \<le> 1"
    using linearize_unit [OF v(3)] by blast
  have "getLuminance c = Fin (2126 / 10000 * x + 7152 / 10000 * y + 722 / 10000 * z)"
    using x y z by (simp add: getLuminance_def Let_def)
  moreover have "0 \<le> 2126 / 10000 * x + 7152 / 10000 * y + 722 / 10000 * z"
    using x y z by simp
  moreover have "2126 / 10000 * x + 7152 / 10000 * y + 722 / 10000 * z \<le> 1"
    using x y z by simp
  ultimately show ?thesis by blast
qed

lemma ratio_bounds:
  fixes lo hi :: real
  assumes "0 \<le> lo" "lo \<le> hi" "hi \<le> 1"
  shows "1 \<le> (hi + 5 / 100) / (lo + 5 / 100)" "(hi + 5 / 100) / (lo + 5 / 100) \<le> 21"
  using assms by (simp_all add: field_simps)

lemma getContrast_range:
  assumes "validRgb c1" "validRgb c2"
  shows "\<exists>x. getContrast c1 c2 = Fin x \<and> 1 \<le> x \<and> x \<le> 21"
proof -
  obtain l1 l2 where l: "getLuminance c1 = Fin l1" "0 \<le> l1" "l1 \<le> 1"
    "getLuminance c2 = Fin l2" "0 \<le> l2" "l2 \<le> 1"
    using luminance_unit [OF assms(1)] luminance_unit [OF assms(2)] by blast
  show ?thesis
  proof (cases "l2 < l1")
    case True
    with l ratio_bounds [of l2 l1] show ?thesis
      by (simp add: getContrast_def Let_def)
  next
    case False
    with l ratio_bounds [of l1 l2] show ?thesis
      by (simp add: getContrast_def Let_def)
  qed
qed

lemma floor_num_2_range:
  assumes "1 \<le> x" "x \<le> 21"
  shows "\<exists>y. floor_num (Fin x) 2 = Fin y \<and> 1 \<le> y \<and> y \<le> 21"
proof -
  have "100 \<le> \<lfloor>100 * x\<rfloor>" "\<lfloor>100 * x\<rfloor> \<le> 2100"
    using assms by (simp_all add: le_floor_iff floor_le_iff)
  then have "1 \<le> real_of_int \<lfloor>100 * x\<rfloor> / 100" "real_of_int \<lfloor>100 * x\<rfloor> / 100 \<le> 21"
    by simp_all
  moreover have "floor_num (Fin x) 2 = Fin (real_of_int \<lfloor>100 * x\<rfloor> / 100)"
    by (simp add: floor_num_def pow10_def)
  ultimately show ?thesis by blast
qed


lemma lin255: "linearizeRgbChannel (Fin 255) = Fin 1"
  by (simp add: linearizeRgbChannel_def)

lemma lin0: "linearizeRgbChannel (Fin 0) = Fin 0"
  by (simp add: linearizeRgbChannel_def)

lemma lum_white: "getLuminance white = Fin 1"
  by (simp add: getLuminance_def white_def lin255)

lemma lum_black: "getLuminance black = Fin 0"
  by (simp add: getLuminance_def black_def lin0)

lemma contrast_white_white: "contrast white white = Fin 1"
  by (simp add: contrast_def getContrast_def lum_white floor_num_def pow10_def)

lemma contrast_white_black: "contrast white black = Fin 21"
  by (simp add: contrast_def getContrast_def lum_white lum_black floor_num_def pow10_def)

text \<open>
  C7. The contrast of white with white is exactly 1, that of white with black is 21
  (so within 0.01 of 21), and for every pair of valid RGB colours the contrast ratio
  of the lighter to the darker luminance, each increased by 0.05, is a finite number in
  \<open>[1, 21]\<close>, as is the value floored to two digits that the method returns.
\<close>

theorem contrast_boundaries_and_range:
  "contrast white white = 1
   \<and> contrast white black = 21
   \<and> (\<exists>x. contrast white black = Fin x \<and> \<bar>x - 21\<bar> \<le> 0.01)
   \<and> (validRgb rgb1 \<and> validRgb rgb2 \<longrightarrow>
        (\<exists>x. getContrast rgb1 rgb2 = Fin x \<and> 1 \<le> x \<and> x \<le> 21)
        \<and> (\<exists>y. contrast rgb1 rgb2 = Fin y \<and> 1 \<le> y \<and> y \<le> 21))"
proof -
  have "\<exists>y. contrast rgb1 rgb2 = Fin y \<and> 1 \<le> y \<and> y \<le> 21"
    if valid: "validRgb rgb1" "validRgb rgb2"
  proof -
    obtain x where "getContrast rgb1 rgb2 = Fin x" "1 \<le> x" "x \<le> 21"
      using getContrast_range [OF valid] by blast
    then show ?thesis
      using floor_num_2_range [of x] by (simp add: contrast_def)
  qed
  then show ?thesis
    using getContrast_range [of rgb1 rgb2]
    by (simp add: contrast_white_white contrast_white_black)
qed

theorem contrast_boundaries_and_range_witness:
  "validRgb \<lparr>rgba_r = 200, rgba_g = 100, rgba_b = 50, rgba_a = 1\<rparr>
   \<and> validRgb white
   \<and> (\<exists>x. getContrast \<lparr>rgba_r = 200, rgba_g = 100, rgba_b = 50, rgba_a = 1\<rparr> white = Fin x
          \<and> 1 \<le> x \<and> x \<le> 21)
   \<and> (\<exists>y. contrast \<lparr>rgba_r = 200, rgba_g = 100, rgba_b = 50, rgba_a = 1\<rparr> white = Fin y
          \<and> 1 \<le> y \<and> y \<le> 21)"
  using contrast_boundaries_and_range
          [of "\<lparr>rgba_r = 200, rgba_g = 100, rgba_b = 50, rgba_a = 1\<rparr>" white]
  by (simp add: validRgb_def validChannel_def white_def)

subsection \<open>Object parsers\<close>









subsection \<open>String parsers\<close>

lemma parseLchaString_None:
  "(parseLchaString input = None) = (exec 6 lchaMatcher input = None)"
  by (simp add: parseLchaString_def split: option.split)

lemma parseHwbaString_None:
  "(parseHwbaString input = None) = (exec 6 hwbaMatcher input = None)"
  by (simp add: parseHwbaString_def split: option.split)

lemma parseCmykaString_None:
  "(parseCmykaString input = None) = (exec 10 cmykMatcher input = None)"
  by (simp add: parseCmykaString_def split: option.split)

text \<open>Inputs outside the grammars: a missing percent sign, commas, a wrong function name.\<close>

lemma lchaMatcher_mismatch: "exec 6 lchaMatcher ''lch(29.2345 44.2 27)'' = None"
  by code_simp

lemma hwbaMatcher_mismatch: "exec 6 hwbaMatcher ''hwb(120, 10%, 20%)'' = None"
  by code_simp

lemma cmykMatcher_mismatch: "exec 10 cmykMatcher ''cmyk(0% 100% 0% 0%)'' = None"
  by code_simp

text \<open>
  C8. A string parser returns \<open>null\<close> for every input that its anchored expression does
  not match, and only for those. In the model a parser is a total function to an
  optional RGBA value: no step of it (\<open>exec\<close>, \<open>Number\<close>, the arithmetic, the clamps, the
  conversion) can raise, so \<open>null\<close> is the only outcome for an input outside the
  grammar. Three such inputs are evaluated.
\<close>

theorem string_parsers_null_on_mismatch:
  "(exec 6 lchaMatcher input = None \<longrightarrow> parseLchaString input = None)
   \<and> (exec 6 hwbaMatcher input = None \<longrightarrow> parseHwbaString input = None)
   \<and> (exec 10 cmykMatcher input = None \<longrightarrow> parseCmykaString input = None)
   \<and> (exec 6 lchaMatcher input \<noteq> None \<longrightarrow> parseLchaString input \<noteq> None)
   \<and> (exec 6 hwbaMatcher input \<noteq> None \<longrightarrow> parseHwbaString input \<noteq> None)
   \<and> (exec 10 cmykMatcher input \<noteq> None \<longrightarrow> parseCmykaString input \<noteq> None)
   \<and> parseLchaString ''lch(29.2345 44.2 27)'' = None
   \<and> parseHwbaString ''hwb(120, 10%, 20%)'' = None
   \<and> parseCmykaString ''cmyk(0% 100% 0% 0%)'' = None"
  by (simp add: parseLchaString_None parseHwbaString_None parseCmykaString_None
        lchaMatcher_mismatch hwbaMatcher_mismatch cmykMatcher_mismatch)

theorem string_parsers_null_on_mismatch_witness:
  "exec 6 lchaMatcher ''lch(50% 20 30'' = None \<and> parseLchaString ''lch(50% 20 30'' = None
   \<and> exec 6 hwbaMatcher ''hwb(120 10 20)'' = None \<and> parseHwbaString ''hwb(120 10 20)'' = None
   \<and> exec 10 cmykMatcher ''device-cmyk(0% 100% 0%)'' = None
   \<and> parseCmykaString ''device-cmyk(0% 100% 0%)'' = None
   \<and> exec 10 cmykMatcher ''device-cmyk(0% 100% 0% 0%)'' \<noteq> None
   \<and> parseCmykaString ''device-cmyk(0% 100% 0% 0%)'' \<noteq> None"
proof -
  have l: "exec 6 lchaMatcher ''lch(50% 20 30'' = None"
    by code_simp
  have h: "exec 6 hwbaMatcher ''hwb(120 10 20)'' = None"
    by code_simp
  have c: "exec 10 cmykMatcher ''device-cmyk(0% 100% 0%)'' = None"
    by code_simp
  have m: "exec 10 cmykMatcher ''device-cmyk(0% 100% 0% 0%)'' \<noteq> None"
    by code_simp
  show ?thesis
    using string_parsers_null_on_mismatch [of "''lch(50% 20 30''"]
          string_parsers_null_on_mismatch [of "''hwb(120 10 20)''"]
          string_parsers_null_on_mismatch [of "''device-cmyk(0% 100% 0%)''"]
          string_parsers_null_on_mismatch [of "''device-cmyk(0% 100% 0% 0%)''"]
          l h c m
    by simp
qed

subsection \<open>Round trips through LCH, HWB and CMYK\<close>































































subsection \<open>Perceptual difference\<close>

text \<open>From here on \<open>Math_pow\<close> is rewritten by the lemmas below only.\<close>

declare Math_pow.simps [simp del]

lemma Math_pow_2: "Math_pow (Fin x) (Fin 2) = Fin (x ^ 2)"
proof -
  have "x < 0 \<Longrightarrow> x powi 2 = x ^ 2"
    by (simp add: power_int_def)
  moreover have "0 < x \<Longrightarrow> x powr 2 = x ^ 2"
    by simp
  ultimately show ?thesis
    by (cases "x = 0"; cases "0 < x") (simp_all add: Math_pow.simps)
qed

lemma Math_pow_7: "Math_pow (Fin x) (Fin 7) = Fin (x ^ 7)"
proof -
  have "x < 0 \<Longrightarrow> x powi 7 = x ^ 7"
    by (simp add: power_int_def)
  moreover have "0 < x \<Longrightarrow> x powr 7 = x ^ 7"
    by simp
  ultimately show ?thesis
    by (cases "x = 0"; cases "0 < x") (simp_all add: Math_pow.simps)
qed

lemma Math_pow_half: "0 \<le> x \<Longrightarrow> Math_pow (Fin x) (Fin (1 / 2)) = Fin (sqrt x)"
  by (cases "x = 0") (simp_all add: powr_half_sqrt Math_pow.simps)

lemma chroma_nonneg: "0 \<le> chroma a b"
  by (simp add: chroma_def)

lemma hueWeight_pos: "7 / 100 \<le> hueWeight H"
proof -
  have "cos (pi / 180 * (H - 30)) \<le> 1" "- 1 \<le> cos (pi / 180 * 2 * H)"
    "- 1 \<le> cos (pi / 180 * (3 * H + 6))" "cos (pi / 180 * (4 * H - 63)) \<le> 1"
    by simp_all
  then show ?thesis
    unfolding hueWeight_def by linarith
qed

lemma lightnessScale_pos: "1 \<le> lightnessScale ml"
  by (simp add: lightnessScale_def)

lemma num_chroma:
  "Math_pow (Math_pow (Fin a) 2 + Math_pow (Fin b) 2) 0.5 = Fin (chroma a b)"
  by (simp add: Math_pow_2 Math_pow_half chroma_def)

lemma num_chromaRatio:
  assumes "0 \<le> mc"
  shows "Math_pow (Fin (mc ^ 7) / (Fin (mc ^ 7) + Math_pow 25 7)) 0.5 = Fin (chromaRatio mc)"
proof -
  have "0 < mc ^ 7 + 25 ^ 7"
    using assms by (simp add: add_nonneg_pos)
  moreover from this have "0 \<le> mc ^ 7 / (mc ^ 7 + 25 ^ 7)"
    using assms by simp
  ultimately show ?thesis
    using Math_pow_half [of "mc ^ 7 / (mc ^ 7 + 25 ^ 7)"] Math_pow_7 [of 25]
    by (simp add: chromaRatio_def)
qed

lemma num_hueDegrees:
  "(let h = (if strictEq (Fin a) 0 \<and> strictEq (Fin b) 0 then 0
             else Math_atan2 (Fin b) (Fin a) * (180 / Math_PI))
    in if h < 0 then h + 360 else h) = Fin (hueDegrees a b)"
  by (simp add: hueDegrees_def strictEq_def Math_PI_def Let_def)

lemma num_lightnessScale:
  "1 + (0.015 * Math_pow (Fin ml - 50) 2) / Math_pow (20 + Math_pow (Fin ml - 50) 2) 0.5
     = Fin (lightnessScale ml)"
proof -
  have "0 < 20 + (ml - 50) ^ 2"
    by (simp add: add_pos_nonneg)
  then have "sqrt (20 + (ml - 50) ^ 2) \<noteq> 0" "0 \<le> 20 + (ml - 50) ^ 2"
    by simp_all
  then show ?thesis
    using Math_pow_half [of "20 + (ml - 50) ^ 2"]
    by (simp add: Math_pow_2 lightnessScale_def)
qed


lemma getDeltaE00_Fin:
  "getDeltaE00 \<lparr>laba_l = Fin l1, laba_a = Fin a1, laba_b = Fin b1, laba_alpha = al1\<rparr>
               \<lparr>laba_l = Fin l2, laba_a = Fin a2, laba_b = Fin b2, laba_alpha = al2\<rparr>
     = Math_pow (Fin (radicand l1 a1 b1 l2 a2 b2)) 0.5"
proof -
  define mc where "mc = (chroma a1 b1 + chroma a2 b2) / 2"
  define ml where "ml = (l1 + l2) / 2"
  define g where "g = 1 / 2 * (1 - chromaRatio mc)"
  define a11 where "a11 = a1 * (1 + g)"
  define a22 where "a22 = a2 * (1 + g)"
  define c11 where "c11 = chroma a11 b1"
  define c22 where "c22 = chroma a22 b2"
  define mc1 where "mc1 = (c11 + c22) / 2"
  define h1 where "h1 = hueDegrees a11 b1"
  define h2 where "h2 = hueDegrees a22 b2"
  define H where "H = hueMean h1 h2"
  define dL where "dL = l2 - l1"
  define dC where "dC = c22 - c11"
  define dH where "dH = 2 * sin (pi / 180 * hueDifference h1 h2 / 2) * sqrt (c11 * c22)"
  define sL where "sL = lightnessScale ml"
  define sC where "sC = 1 + 45 / 1000 * mc1"
  define sH where "sH = 1 + 15 / 1000 * mc1 * hueWeight H"
  define R where "R = (dL / sL) ^ 2 + (dC / sC) ^ 2 + (dH / sH) ^ 2
         + rotation mc H * dC * dH / (sC * sH)"
  have R: "radicand l1 a1 b1 l2 a2 b2 = R"
    by (simp only: radicand_def Let_def R_def sH_def sC_def sL_def dH_def dC_def dL_def H_def
          h2_def h1_def mc1_def c22_def c11_def a22_def a11_def g_def ml_def mc_def)
  have mc0: "0 \<le> mc"
    by (simp add: mc_def chroma_nonneg)
  have mc10: "0 \<le> mc1" "0 \<le> c11" "0 \<le> c22"
    by (simp_all add: mc1_def c11_def c22_def chroma_nonneg)
  have pos: "sL \<noteq> 0" "sC \<noteq> 0" "sH \<noteq> 0"
  proof -
    show "sL \<noteq> 0"
      using lightnessScale_pos [of ml] by (simp add: sL_def)
    have "0 \<le> 45 / 1000 * mc1"
      using mc10 by simp
    then show "sC \<noteq> 0"
      by (simp add: sC_def)
    have "0 \<le> hueWeight H"
      using hueWeight_pos [of H] by simp
    then have "0 \<le> 15 / 1000 * mc1 * hueWeight H"
      using mc10 by simp
    then show "sH \<noteq> 0"
      by (simp add: sH_def)
  qed
  have f1: "Math_pow (Math_pow (Fin a1) 2 + Math_pow (Fin b1) 2) 0.5 = Fin (chroma a1 b1)"
    and f2: "Math_pow (Math_pow (Fin a2) 2 + Math_pow (Fin b2) 2) 0.5 = Fin (chroma a2 b2)"
    by (rule num_chroma)+
  have f3: "(Fin (chroma a1 b1) + Fin (chroma a2 b2)) / 2 = Fin mc"
    by (simp add: mc_def)
  have f4: "(Fin l1 + Fin l2) / 2 = Fin ml"
    by (simp add: ml_def)
  have f5: "Math_pow (Fin mc) 7 = Fin (mc ^ 7)"
    by (simp add: Math_pow_7)
  have f6: "Math_pow (Fin (mc ^ 7) / (Fin (mc ^ 7) + Math_pow 25 7)) 0.5 = Fin (chromaRatio mc)"
    by (rule num_chromaRatio [OF mc0])
  have f7: "0.5 * (1 - Fin (chromaRatio mc)) = Fin g"
    by (simp add: g_def)
  have f8: "Fin a1 * (1 + Fin g) = Fin a11" and f9: "Fin a2 * (1 + Fin g) = Fin a22"
    by (simp_all add: a11_def a22_def)
  have f10: "Math_pow (Math_pow (Fin a11) 2 + Math_pow (Fin b1) 2) 0.5 = Fin c11"
    and f11: "Math_pow (Math_pow (Fin a22) 2 + Math_pow (Fin b2) 2) 0.5 = Fin c22"
    unfolding c11_def c22_def by (rule num_chroma)+
  have f12: "(Fin c11 + Fin c22) / 2 = Fin mc1"
    by (simp add: mc1_def)
  have f13: "(if (if strictEq (Fin a11) 0 \<and> strictEq (Fin b1) 0 then 0
                  else Math_atan2 (Fin b1) (Fin a11) * (180 / Math_PI)) < 0
              then (if strictEq (Fin a11) 0 \<and> strictEq (Fin b1) 0 then 0
                    else Math_atan2 (Fin b1) (Fin a11) * (180 / Math_PI)) + 360
              else (if strictEq (Fin a11) 0 \<and> strictEq (Fin b1) 0 then 0
                    else Math_atan2 (Fin b1) (Fin a11) * (180 / Math_PI))) = Fin h1"
    unfolding h1_def using num_hueDegrees [of a11 b1] by (simp only: Let_def)
  have f14: "(if (if strictEq (Fin a22) 0 \<and> strictEq (Fin b2) 0 then 0
                  else Math_atan2 (Fin b2) (Fin a22) * (180 / Math_PI)) < 0
              then (if strictEq (Fin a22) 0 \<and> strictEq (Fin b2) 0 then 0
                    else Math_atan2 (Fin b2) (Fin a22) * (180 / Math_PI)) + 360
              else (if strictEq (Fin a22) 0 \<and> strictEq (Fin b2) 0 then 0
                    else Math_atan2 (Fin b2) (Fin a22) * (180 / Math_PI))) = Fin h2"
    unfolding h2_def using num_hueDegrees [of a22 b2] by (simp only: Let_def)
  have f15: "Math_abs (Fin h2 - Fin h1) = Fin \<bar>h2 - h1\<bar>"
    by simp
  have f16: "(if Fin \<bar>h2 - h1\<bar> > 180 \<and> Fin h2 \<le> Fin h1 then Fin h2 - Fin h1 + 360
              else if Fin \<bar>h2 - h1\<bar> > 180 \<and> Fin h2 > Fin h1 then Fin h2 - Fin h1 - 360
              else Fin h2 - Fin h1) = Fin (hueDifference h1 h2)"
    by (auto simp: hueDifference_def)
  have f17: "(if Fin \<bar>h2 - h1\<bar> \<le> 180 then (Fin h1 + Fin h2) / 2
              else (if Fin h1 + Fin h2 < 360 then Fin h1 + Fin h2 + 360
                    else Fin h1 + Fin h2 - 360) / 2) = Fin H"
    by (simp add: H_def hueMean_def)
  have f18: "1 - 0.17 * Math_cos (Math_PI / 180 * (Fin H - 30))
               + 0.24 * Math_cos (Math_PI / 180 * 2 * Fin H)
               + 0.32 * Math_cos (Math_PI / 180 * (3 * Fin H + 6))
               - 0.2 * Math_cos (Math_PI / 180 * (4 * Fin H - 63)) = Fin (hueWeight H)"
    by (simp add: hueWeight_def Math_PI_def)
  have f19: "Fin l2 - Fin l1 = Fin dL" and f20: "Fin c22 - Fin c11 = Fin dC"
    by (simp_all add: dL_def dC_def)
  have "0 \<le> c11 * c22"
    using mc10 by simp
  then have f21: "2 * Math_sin (Math_PI / 180 * Fin (hueDifference h1 h2) / 2)
               * Math_pow (Fin c11 * Fin c22) 0.5 = Fin dH"
    using Math_pow_half [of "c11 * c22"] by (simp add: dH_def Math_PI_def)
  have f22: "1 + (0.015 * Math_pow (Fin ml - 50) 2) / Math_pow (20 + Math_pow (Fin ml - 50) 2) 0.5
               = Fin sL"
    unfolding sL_def by (rule num_lightnessScale)
  have f23: "1 + 0.045 * Fin mc1 = Fin sC" and f24: "1 + 0.015 * Fin mc1 * Fin (hueWeight H) = Fin sH"
    by (simp_all add: sC_def sH_def)
  have f25: "- (2 * Fin (chromaRatio mc))
               * Math_sin (Math_PI / 180 * 2 * (30 * Math_exp (- 1 * Math_pow ((Fin H - 275) / 25) 2)))
             = Fin (rotation mc H)"
    by (simp add: rotation_def Math_PI_def Math_pow_2)
  have f26: "Math_pow (Fin dL / 1 / Fin sL) 2 + Math_pow (Fin dC / 1 / Fin sC) 2
               + Math_pow (Fin dH / 1 / Fin sH) 2
               + Fin (rotation mc H) * Fin dC * Fin dH / (1 * Fin sC * 1 * Fin sH) = Fin R"
    using pos by (simp add: R_def Math_pow_2)
  show ?thesis
    unfolding getDeltaE00_def Let_def R
    by (simp only: laba.simps f1 f2 f3 f4 f5 f6 f7 f8 f9 f10 f11 f12 f13 f14 f15 f16 f17 f18 f19
          f20 f21 f22 f23 f24 f25 f26)
qed


lemma hueDifference_swap: "hueDifference x y = - hueDifference y x"
proof -
  have a: "\<bar>x - y\<bar> = \<bar>y - x\<bar>"
    by (rule abs_minus_commute)
  consider "x < y" | "x = y" | "y < x"
    by linarith
  then show ?thesis
  proof cases
    case 1
    then show ?thesis by (simp add: hueDifference_def a)
  next
    case 2
    then show ?thesis by (simp add: hueDifference_def)
  next
    case 3
    then show ?thesis by (simp add: hueDifference_def a)
  qed
qed

lemma hueMean_swap: "hueMean x y = hueMean y x"
  by (simp only: hueMean_def abs_minus_commute [of x y] add.commute [of x y])

lemma hueDifference_same: "hueDifference h h = 0"
  by (simp add: hueDifference_def)

lemma radicand_same: "radicand l a b l a b = 0"
  by (simp add: radicand_def Let_def hueDifference_same)

lemma radicand_swap: "radicand l2 a2 b2 l1 a1 b1 = radicand l1 a1 b1 l2 a2 b2"
proof -
  define mc where "mc = (chroma a1 b1 + chroma a2 b2) / 2"
  define g where "g = 1 / 2 * (1 - chromaRatio mc)"
  define c11 where "c11 = chroma (a1 * (1 + g)) b1"
  define c22 where "c22 = chroma (a2 * (1 + g)) b2"
  define h1 where "h1 = hueDegrees (a1 * (1 + g)) b1"
  define h2 where "h2 = hueDegrees (a2 * (1 + g)) b2"
  define sL where "sL = lightnessScale ((l1 + l2) / 2)"
  define sC where "sC = 1 + 45 / 1000 * ((c11 + c22) / 2)"
  define sH where "sH = 1 + 15 / 1000 * ((c11 + c22) / 2) * hueWeight (hueMean h1 h2)"
  define dH where "dH = 2 * sin (pi / 180 * hueDifference h1 h2 / 2) * sqrt (c11 * c22)"
  define Rt where "Rt = rotation mc (hueMean h1 h2)"
  have lhs: "radicand l1 a1 b1 l2 a2 b2
      = ((l2 - l1) / sL) ^ 2 + ((c22 - c11) / sC) ^ 2 + (dH / sH) ^ 2
        + Rt * (c22 - c11) * dH / (sC * sH)"
    by (simp only: radicand_def Let_def mc_def g_def c11_def c22_def h1_def h2_def sL_def sC_def
          sH_def dH_def Rt_def)
  have e: "(chroma a2 b2 + chroma a1 b1) / 2 = mc" "(l2 + l1) / 2 = (l1 + l2) / 2"
    "(c22 + c11) / 2 = (c11 + c22) / 2" "c22 * c11 = c11 * c22"
    by (simp_all add: mc_def add.commute mult.commute)
  have "pi / 180 * hueDifference h2 h1 / 2 = - (pi / 180 * hueDifference h1 h2 / 2)"
    by (simp add: hueDifference_swap [of h2 h1])
  then have s: "2 * sin (pi / 180 * hueDifference h2 h1 / 2) * sqrt (c11 * c22) = - dH"
    by (simp add: dH_def)
  have "radicand l2 a2 b2 l1 a1 b1
      = ((l1 - l2) / sL) ^ 2 + ((c11 - c22) / sC) ^ 2 + ((- dH) / sH) ^ 2
        + Rt * (c11 - c22) * (- dH) / (sC * sH)"
    unfolding radicand_def Let_def e(1) g_def [symmetric] c11_def [symmetric] c22_def [symmetric]
      h1_def [symmetric] h2_def [symmetric] e(2,3,4) hueMean_swap [of h2 h1] s
      sL_def [symmetric] sC_def [symmetric] sH_def [symmetric] Rt_def [symmetric]
    by (rule refl)
  also have "\<dots> = ((l2 - l1) / sL) ^ 2 + ((c22 - c11) / sC) ^ 2 + (dH / sH) ^ 2
        + Rt * (c22 - c11) * dH / (sC * sH)"
  proof -
    have "((l1 - l2) / sL) ^ 2 = ((l2 - l1) / sL) ^ 2"
      by (simp add: power2_eq_square divide_simps) (simp add: algebra_simps)
    moreover have "((c11 - c22) / sC) ^ 2 = ((c22 - c11) / sC) ^ 2"
      by (simp add: power2_eq_square divide_simps) (simp add: algebra_simps)
    moreover have "((- dH) / sH) ^ 2 = (dH / sH) ^ 2"
      by simp
    moreover have "Rt * (c11 - c22) * (- dH) = Rt * (c22 - c11) * dH"
      by (simp add: algebra_simps)
    ultimately show ?thesis
      by simp
  qed
  finally show ?thesis
    using lhs by simp
qed


lemma isFinite_clamp: "isFinite (clamp n (Fin lo) (Fin hi))"
  by (cases n) (simp_all add: clamp_def)

lemma clamp_unit: "Fin 0 \<le> clamp n (Fin 0) (Fin 1) \<and> clamp n (Fin 0) (Fin 1) \<le> Fin 1"
  by (cases n) (simp_all add: clamp_def)

lemma isFinite_Fin: "isFinite x \<Longrightarrow> \<exists>v. x = Fin v"
  by (cases x) simp_all

lemma rgbaToXyza_finite:
  "isFinite (xyza_x (rgbaToXyza rgba))" "isFinite (xyza_y (rgbaToXyza rgba))"
  "isFinite (xyza_z (rgbaToXyza rgba))"
  by (simp_all add: rgbaToXyza_def clampXyza_def D50_def isFinite_clamp Let_def)

lemma rgbaToLaba_finite:
  "isFinite (laba_l (rgbaToLaba rgba))" "isFinite (laba_a (rgbaToLaba rgba))"
  "isFinite (laba_b (rgbaToLaba rgba))"
proof -
  obtain x y z where xyz: "xyza_x (rgbaToXyza rgba) = Fin x" "xyza_y (rgbaToXyza rgba) = Fin y"
    "xyza_z (rgbaToXyza rgba) = Fin z"
    using rgbaToXyza_finite [of rgba] isFinite_Fin by metis
  show "isFinite (laba_l (rgbaToLaba rgba))" "isFinite (laba_a (rgbaToLaba rgba))"
    "isFinite (laba_b (rgbaToLaba rgba))"
    by (simp_all add: rgbaToLaba_def Let_def xyz D50_def e_lab_def k_lab_def)
qed

lemma toLab_Fin:
  "\<exists>l a b al. toLab rgba d = \<lparr>laba_l = Fin l, laba_a = Fin a, laba_b = Fin b, laba_alpha = al\<rparr>"
proof -
  obtain l a b where lab: "laba_l (rgbaToLaba rgba) = Fin l" "laba_a (rgbaToLaba rgba) = Fin a"
    "laba_b (rgbaToLaba rgba) = Fin b"
    using rgbaToLaba_finite [of rgba] isFinite_Fin by metis
  have "isFinite (round_num (Fin v) d)" for v
    by (simp add: round_num_def pow10_def)
  then obtain l' a' b' where "round_num (Fin l) d = Fin l'" "round_num (Fin a) d = Fin a'"
    "round_num (Fin b) d = Fin b'"
    using isFinite_Fin by metis
  then show ?thesis
    by (simp add: toLab_def roundLaba_def lab)
qed

lemma getDeltaE00_same:
  "getDeltaE00 \<lparr>laba_l = Fin l, laba_a = Fin a, laba_b = Fin b, laba_alpha = al\<rparr>
               \<lparr>laba_l = Fin l, laba_a = Fin a, laba_b = Fin b, laba_alpha = al\<rparr> = Fin 0"
  using Math_pow_half [of 0] by (simp add: getDeltaE00_Fin radicand_same)

lemma getDeltaE00_swap:
  "getDeltaE00 \<lparr>laba_l = Fin l2, laba_a = Fin a2, laba_b = Fin b2, laba_alpha = al2\<rparr>
               \<lparr>laba_l = Fin l1, laba_a = Fin a1, laba_b = Fin b1, laba_alpha = al1\<rparr>
     = getDeltaE00 \<lparr>laba_l = Fin l1, laba_a = Fin a1, laba_b = Fin b1, laba_alpha = al1\<rparr>
               \<lparr>laba_l = Fin l2, laba_a = Fin a2, laba_b = Fin b2, laba_alpha = al2\<rparr>"
  by (simp only: getDeltaE00_Fin radicand_swap [of l2 a2 b2 l1 a1 b1])

text \<open>
  C6. For all colours \<open>a\<close> and \<open>b\<close>: \<open>delta(a, a)\<close> is 0, \<open>delta(a, b)\<close> equals
  \<open>delta(b, a)\<close>, and the result lies in \<open>[0, 1]\<close>, being the CIEDE2000 value divided by
  100, rounded to three digits and clamped. The LAB values that \<open>toLab\<close> returns are
  finite for every RGBA value, and arithmetic on finite numbers is exact in the model.
\<close>

theorem delta_zero_symmetric_normalized:
  "delta a a = 0
   \<and> delta a b = delta b a
   \<and> 0 \<le> delta a b \<and> delta a b \<le> 1
   \<and> delta a b = clamp (round_num (getDeltaE00 (toLab a 2) (toLab b 2) / 100) 3) 0 1"
proof -
  obtain l1 a1 b1 al1 where A: "toLab a 2 = \<lparr>laba_l = Fin l1, laba_a = Fin a1, laba_b = Fin b1, laba_alpha = al1\<rparr>"
    using toLab_Fin [of a 2] by blast
  obtain l2 a2 b2 al2 where B: "toLab b 2 = \<lparr>laba_l = Fin l2, laba_a = Fin a2, laba_b = Fin b2, laba_alpha = al2\<rparr>"
    using toLab_Fin [of b 2] by blast
  have zero: "delta a a = 0"
    by (simp add: delta_def A getDeltaE00_same round_num_def pow10_def clamp_def)
  have sym: "delta a b = delta b a"
    unfolding delta_def A B by (simp only: getDeltaE00_swap [of l2 a2 b2 al2 l1 a1 b1 al1])
  have range: "0 \<le> delta a b" "delta a b \<le> 1"
    using clamp_unit by (simp_all add: delta_def)
  show ?thesis
    using zero sym range by (simp add: delta_def)
qed

end
